theory Spec2Isabelle
  imports Complex_Main
begin

section \<open>Outcomes of a call\<close>

text \<open>
  Every exception of the source is a value on the left of a sum. Where the source does not
  raise but goes on with values the model has no place for (a NaN produced by a division
  by zero, a tensor of another rank), the model stops with \<open>Unmodelled\<close>, so that no
  theorem speaks about such a run.
\<close>

datatype error =
    RuntimeError string
  | AttributeError
  | NoneNetworkError
  | KeyError "string list"
  | IndexError
  | ZeroDivisionError
  | Unmodelled string

section \<open>Floating-point rounding\<close>

text \<open>
  The tensors of \<open>dqn.py\<close> are float32 and the Python scalars are doubles: every
  arithmetic operation of the source returns the exact result rounded to the nearest number
  with a significand of \<open>p\<close> bits, ties to the even significand (\<open>p = 24\<close> for float32,
  \<open>p = 53\<close> for a double). The exponent is unbounded: overflow to an infinity and the
  subnormal numbers are not modelled. The estimators of \<open>advantages.py\<close> are modelled
  over the real numbers, without rounding.
\<close>

definition pow2 :: "int \<Rightarrow> real" where
  "pow2 k = (if 0 \<le> k then 2 ^ nat k else 1 / 2 ^ nat (- k))"

definition round_even :: "real \<Rightarrow> int" where
  "round_even y =
     (if y - of_int \<lfloor>y\<rfloor> < 1 / 2 then \<lfloor>y\<rfloor>
      else if 1 / 2 < y - of_int \<lfloor>y\<rfloor> then \<lfloor>y\<rfloor> + 1
      else if even \<lfloor>y\<rfloor> then \<lfloor>y\<rfloor> else \<lfloor>y\<rfloor> + 1)"

text \<open>
  The binary exponent of a positive number, found by halving or doubling at most \<open>fuel\<close>
  times: \<open>2 ^ e \<le> x < 2 ^ (e + 1)\<close> for the result \<open>e\<close> when the fuel suffices.
\<close>

fun expo_from :: "nat \<Rightarrow> int \<Rightarrow> real \<Rightarrow> int" where
  "expo_from 0 e x = e"
| "expo_from (Suc fuel) e x =
     (if 2 \<le> x then expo_from fuel (e + 1) (x / 2)
      else if x < 1 then expo_from fuel (e - 1) (2 * x)
      else e)"

definition float_round :: "nat \<Rightarrow> real \<Rightarrow> real" where
  "float_round p x =
     (if x = 0 then 0
      else sgn x * of_int (round_even (\<bar>x\<bar> * pow2 (int p - 1 - \<lfloor>log 2 \<bar>x\<bar>\<rfloor>)))
             * pow2 (\<lfloor>log 2 \<bar>x\<bar>\<rfloor> - (int p - 1)))"

abbreviation f32 :: "real \<Rightarrow> real" where
  "f32 \<equiv> float_round 24"

abbreviation f64 :: "real \<Rightarrow> real" where
  "f64 \<equiv> float_round 53"

section \<open>The categorical projection of \<open>DistributionalDQNLoss.forward\<close> (dqn.py)\<close>

subsection \<open>Rewards with the IEEE special values\<close>

text \<open>
  The reward is data and may hold an infinity or a NaN; the discount and the support are
  buffers of the module and are finite. Adding a finite number is the only arithmetic the
  source does on a reward before the clamp; the sum of two finite numbers is rounded.
\<close>

datatype fval = Fin real | PInf | NInf | NaN

fun isfinite :: "fval \<Rightarrow> bool" where
  "isfinite (Fin x) = True"
| "isfinite PInf = False"
| "isfinite NInf = False"
| "isfinite NaN = False"

fun fadd :: "fval \<Rightarrow> fval \<Rightarrow> fval" where
  "fadd NaN y = NaN"
| "fadd x NaN = NaN"
| "fadd (Fin x) (Fin y) = Fin (f32 (x + y))"
| "fadd PInf NInf = NaN"
| "fadd NInf PInf = NaN"
| "fadd PInf y = PInf"
| "fadd NInf y = NInf"
| "fadd (Fin x) PInf = PInf"
| "fadd (Fin x) NInf = NInf"

text \<open>
  \<open>Tz.clamp_(min=Vmin, max=Vmax)\<close>: torch computes \<open>min(max(x, Vmin), Vmax)\<close>; an
  infinity lands on the bound, a NaN stays a NaN.
\<close>

fun clamp :: "real \<Rightarrow> real \<Rightarrow> fval \<Rightarrow> fval" where
  "clamp lo hi (Fin x) = Fin (min (max x lo) hi)"
| "clamp lo hi PInf = Fin hi"
| "clamp lo hi NInf = Fin (min lo hi)"
| "clamp lo hi NaN = NaN"

fun the_fin :: "fval \<Rightarrow> real" where
  "the_fin (Fin x) = x"
| "the_fin _ = 0"

subsection \<open>The Bellman-shifted support\<close>

text \<open>
  \<open>discount = self.gamma ** steps_to_next_obs\<close>, with \<open>self.gamma\<close> the float32 buffer
  of the module: a scalar when the batch has no \<open>steps_to_next_obs\<close> entry (the default
  1), a column \<open>[N, 1]\<close> otherwise. The power is taken as correctly rounded.
\<close>

datatype discount = Scalar real | Column "real list"

definition forward_discount :: "real \<Rightarrow> nat list option \<Rightarrow> discount" where
  "forward_discount gamma steps_to_next_obs =
     (case steps_to_next_obs of
        None \<Rightarrow> Scalar (f32 (gamma ^ 1))
      | Some ks \<Rightarrow> Column (map (\<lambda>k. f32 (gamma ^ k)) ks))"

definition discount_rows :: "nat \<Rightarrow> discount \<Rightarrow> real list option" where
  "discount_rows K d =
     (case d of
        Scalar g \<Rightarrow> Some (replicate K g)
      | Column gs \<Rightarrow> if length gs = K then Some gs else None)"

text \<open>
  \<open>Tz = reward + (1 - done.to(reward.dtype)) * discount * support\<close>, with \<open>reward\<close> and
  \<open>done\<close> of shape \<open>[K, 1]\<close> and \<open>support\<close> of shape \<open>[Z]\<close>. Columns of different
  lengths do not broadcast (torch raises); the broadcast of a column of length 1 is left
  out. The two products and the sum are float32 operations, evaluated from the left.
\<close>

definition forward_Tz ::
  "fval list \<Rightarrow> bool list \<Rightarrow> discount \<Rightarrow> real list \<Rightarrow> error + fval list list" where
  "forward_Tz reward done discount support =
     (if length done \<noteq> length reward then Inl (RuntimeError ''broadcast'')
      else case discount_rows (length reward) discount of
        None \<Rightarrow> Inl (RuntimeError ''broadcast'')
      | Some gs \<Rightarrow>
          Inr (map (\<lambda>(r, d, g). map (\<lambda>z. fadd r (Fin (f32 (f32 ((1 - of_bool d) * g) * z)))) support)
                 (zip reward (zip done gs))))"

definition has_shape :: "'a list list \<Rightarrow> nat \<Rightarrow> nat \<Rightarrow> bool" where
  "has_shape t n z = (length t = n \<and> list_all (\<lambda>row. length row = z) t)"

subsection \<open>The degenerate-bin fix\<close>

text \<open>
  \<open>low[(up > 0) & (low == up)] -= 1\<close> and then
  \<open>up[(low < (atoms - 1)) & (low == up)] += 1\<close>: the second mask is computed from the
  \<open>low\<close> that the first statement has already changed.
\<close>

definition fix_low :: "int \<Rightarrow> int \<Rightarrow> int" where
  "fix_low low up = (if up > 0 \<and> low = up then low - 1 else low)"

definition fix_up :: "nat \<Rightarrow> int \<Rightarrow> int \<Rightarrow> int" where
  "fix_up atoms low up = (if low < int atoms - 1 \<and> low = up then up + 1 else up)"

subsection \<open>Scatter-add into the flat accumulator\<close>

text \<open>
  \<open>m.view(-1).index_add_(0, index, tensor)\<close>: for each position \<open>i\<close>,
  \<open>m[index[i]] += tensor[i]\<close> in float32, in the order of the positions; an index
  outside the accumulator raises.
\<close>

fun index_add :: "real list \<Rightarrow> int list \<Rightarrow> real list \<Rightarrow> error + real list" where
  "index_add m [] [] = Inr m"
| "index_add m (i # is) (v # vs) =
     (if 0 \<le> i \<and> i < int (length m)
      then index_add (m[nat i := f32 (m ! nat i + v)]) is vs
      else Inl IndexError)"
| "index_add m _ _ = Inl (RuntimeError ''index_add_: index and source differ in length'')"

fun tensor_min :: "real list \<Rightarrow> real" where
  "tensor_min [] = 0"
| "tensor_min [x] = x"
| "tensor_min (x # xs) = min x (tensor_min xs)"

fun tensor_max :: "real list \<Rightarrow> real" where
  "tensor_max [] = 0"
| "tensor_max [x] = x"
| "tensor_max (x # xs) = max x (tensor_max xs)"

subsection \<open>The projection (dqn.py, lines 299 to 304 and 361 to 396)\<close>

text \<open>
  \<open>Vmin = support.min().item()\<close>, \<open>Vmax = support.max().item()\<close> and
  \<open>delta_z = (Vmax - Vmin) / (atoms - 1)\<close>: the minimum of an empty tensor raises, and
  the subtraction and the division are those of Python floats (doubles); the division
  raises when \<open>atoms - 1\<close> is zero.
\<close>

definition forward_delta_z :: "real list \<Rightarrow> error + real" where
  "forward_delta_z support =
     (if support = [] then Inl (RuntimeError ''min(): empty tensor'')
      else if length support - 1 = 0 then Inl ZeroDivisionError
      else Inr (f64 (f64 (tensor_max support - tensor_min support) / real (length support - 1))))"

text \<open>
  Lines 361 to 371: the shape check, the clamp in place, and only then the check for
  non-finite elements.
\<close>

definition forward_clamped_Tz ::
  "nat \<Rightarrow> real list \<Rightarrow> fval list \<Rightarrow> bool list \<Rightarrow> discount \<Rightarrow> error + fval list list" where
  "forward_clamped_Tz batch_size support reward done discount =
     (case forward_Tz reward done discount support of
        Inl e \<Rightarrow> Inl e
      | Inr Tz0 \<Rightarrow>
          if \<not> has_shape Tz0 batch_size (length support)
          then Inl (RuntimeError ''Tz shape must be torch.Size([batch_size, atoms])'')
          else
            let Tz = map (map (clamp (tensor_min support) (tensor_max support))) Tz0
            in if \<not> list_all (list_all isfinite) Tz
               then Inl (RuntimeError ''Tz has some non-finite elements'')
               else Inr Tz)"

text \<open>
  \<open>offset = torch.linspace(0, (batch_size - 1) * atoms, batch_size, dtype=int64)\<close> is
  the list of the row starts \<open>0, atoms, 2 * atoms, ...\<close>.
\<close>

definition forward_offset :: "nat \<Rightarrow> nat \<Rightarrow> int list" where
  "forward_offset batch_size atoms = map (\<lambda>n. int (n * atoms)) [0..<batch_size]"

text \<open>
  \<open>b = (Tz - Vmin) / delta_z\<close>: \<open>Tz\<close> is a float32 tensor and \<open>Vmin\<close> and \<open>delta_z\<close>
  are Python floats, which torch converts to float32 before it subtracts and divides.
  \<open>Vmin\<close> is an element of the float32 support, so only \<open>delta_z\<close> changes there.
\<close>

definition forward_b :: "real \<Rightarrow> real \<Rightarrow> fval list list \<Rightarrow> real list list" where
  "forward_b Vmin delta_z Tz = map (map (\<lambda>t. f32 (f32 (the_fin t - Vmin) / f32 delta_z))) Tz"

definition forward_low :: "real list list \<Rightarrow> int list list" where
  "forward_low b = map (map (\<lambda>x. fix_low \<lfloor>x\<rfloor> \<lceil>x\<rceil>)) b"

definition forward_up :: "nat \<Rightarrow> real list list \<Rightarrow> int list list" where
  "forward_up atoms b = map (map (\<lambda>x. fix_up atoms (fix_low \<lfloor>x\<rfloor> \<lceil>x\<rceil>) \<lceil>x\<rceil>)) b"

text \<open>\<open>(low + offset).view(-1)\<close> and \<open>(up + offset).view(-1)\<close>.\<close>

definition flat_index :: "int list list \<Rightarrow> int list \<Rightarrow> int list" where
  "flat_index t offset = concat (map (\<lambda>(row, off). map (\<lambda>i. i + off) row) (zip t offset))"

text \<open>
  \<open>(pns_a * (up.float() - b)).view(-1)\<close> and \<open>(pns_a * (b - low.float())).view(-1)\<close>.
  The conversion of an index to float32 is taken as exact (it is below \<open>2 ^ 24\<close>).
\<close>

definition weight_low :: "real list list \<Rightarrow> int list list \<Rightarrow> real list list \<Rightarrow> real list" where
  "weight_low pns_a up b =
     concat (map (\<lambda>(ps, us, bs). map (\<lambda>(p, u, x). f32 (p * f32 (real_of_int u - x))) (zip ps (zip us bs)))
               (zip pns_a (zip up b)))"

definition weight_up :: "real list list \<Rightarrow> int list list \<Rightarrow> real list list \<Rightarrow> real list" where
  "weight_up pns_a low b =
     concat (map (\<lambda>(ps, ls, bs). map (\<lambda>(p, l, x). f32 (p * f32 (x - real_of_int l))) (zip ps (zip ls bs)))
               (zip pns_a (zip low b)))"

text \<open>
  Lines 373 to 396, from \<open>b\<close> on. The accumulator \<open>m\<close> is flat, as \<open>m.view(-1)\<close>:
  cell \<open>(n, z)\<close> is at position \<open>n * atoms + z\<close>. \<open>pns_a\<close> comes from the indexing at
  line 350 with the shape \<open>[batch_size, atoms]\<close>, and from the exponential of line 347,
  which is never negative; another shape and a negative entry are not modelled.
\<close>

definition forward_scatter ::
  "nat \<Rightarrow> nat \<Rightarrow> real list list \<Rightarrow> real list list \<Rightarrow> error + real list" where
  "forward_scatter batch_size atoms b pns_a =
     (if \<not> has_shape pns_a batch_size atoms
      then Inl (Unmodelled ''pns_a is not [batch_size, atoms]'')
      else if \<not> list_all (list_all (\<lambda>p. 0 \<le> p)) pns_a
      then Inl (Unmodelled ''pns_a has a negative entry'')
      else
        let low = forward_low b;
            up = forward_up atoms b;
            m = replicate (batch_size * atoms) 0;
            offset = forward_offset batch_size atoms
        in (case index_add m (flat_index low offset) (weight_low pns_a up b) of
              Inl e \<Rightarrow> Inl e
            | Inr m1 \<Rightarrow> index_add m1 (flat_index up offset) (weight_up pns_a low b)))"

text \<open>
  The projected mass of lines 299 to 304 and 361 to 396. Equal bounds of the support make
  \<open>delta_z\<close> zero and \<open>b\<close> a NaN, where the model stops; so it does for a support of
  more than \<open>2 ^ 20\<close> atoms.
\<close>

definition forward_m ::
  "nat \<Rightarrow> real list \<Rightarrow> fval list \<Rightarrow> bool list \<Rightarrow> discount \<Rightarrow> real list list
     \<Rightarrow> error + real list" where
  "forward_m batch_size support reward done discount pns_a =
     (case forward_delta_z support of
        Inl e \<Rightarrow> Inl e
      | Inr delta_z \<Rightarrow>
          (case forward_clamped_Tz batch_size support reward done discount of
             Inl e \<Rightarrow> Inl e
           | Inr Tz \<Rightarrow>
               if delta_z = 0 then Inl (Unmodelled ''b is NaN'')
               else if 2 ^ 20 < length support
               then Inl (Unmodelled ''more than 2 ^ 20 atoms'')
               else forward_scatter batch_size (length support)
                      (forward_b (tensor_min support) delta_z Tz) pns_a))"

text \<open>Row \<open>n\<close> of the flat \<open>m\<close> seen as \<open>[batch_size, atoms]\<close>.\<close>

definition row :: "nat \<Rightarrow> real list \<Rightarrow> nat \<Rightarrow> real list" where
  "row atoms m n = take atoms (drop (n * atoms) m)"


subsection \<open>Double-estimator selection (dqn.py, lines 329 to 350)\<close>

text \<open>
  The parameters of the value network are a snapshot that holds the support with the
  weights. The network itself is outside this repository's core: it is a function from a
  snapshot and the observations of a batch to the two entries it writes, \<open>"action"\<close>
  (one row per transition: a one-hot row, or a row with the index of the action) and
  \<open>"action_value"\<close> (log-probabilities of shape \<open>[N, Z, A]\<close>).
\<close>

datatype action_space = Categorical | OneHot

record 'w dqn_params =
  params_support :: "real list"
  params_weights :: 'w

record ('w, 'o) DistributionalDQNLoss =
  loss_gamma :: real
  loss_action_space :: action_space
  loss_value_network :: "'w dqn_params \<Rightarrow> 'o \<Rightarrow> int list list \<times> real list list list"
  value_network_params :: "'w dqn_params"
  target_value_network_params :: "'w dqn_params"

text \<open>
  The entries of the input batch that the target construction reads. The entries
  \<open>"action"\<close> and the current observation feed only \<open>log_ps_a\<close> and the loss of lines
  313 to 327 and 398 to 406, which are not modelled.
\<close>

record 'o transitions =
  td_batch_size :: "nat list"
  td_next_observation :: 'o
  td_next_reward :: "fval list"
  td_next_done :: "bool list"
  td_steps_to_next_obs :: "nat list option"

record 'o next_td =
  nt_observation :: 'o
  nt_action :: "int list list option"
  nt_action_value :: "real list list list option"

text \<open>
  Modelled from the spec: \<open>step_mdp\<close> (torchrl/envs/utils.py is not among the sources),
  the StepTransition of the spec, "producing the batch view whose current fields correspond
  to the original batch's next-step fields". The view has no \<open>"action"\<close> and no
  \<open>"action_value"\<close> until the network writes them.
\<close>

definition dqn_step_mdp :: "'o transitions \<Rightarrow> 'o next_td" where
  "dqn_step_mdp td =
     \<lparr>nt_observation = td_next_observation td, nt_action = None, nt_action_value = None\<rparr>"

text \<open>\<open>self.value_network(next_td, params=...)\<close> writes both entries into \<open>next_td\<close>.\<close>

definition run_value_network ::
  "('w dqn_params \<Rightarrow> 'o \<Rightarrow> int list list \<times> real list list list) \<Rightarrow> 'w dqn_params
     \<Rightarrow> 'o next_td \<Rightarrow> 'o next_td" where
  "run_value_network net params td =
     (case net params (nt_observation td) of
        (a, v) \<Rightarrow> td\<lparr>nt_action := Some a, nt_action_value := Some v\<rparr>)"

fun collect :: "(error + 'a) list \<Rightarrow> error + 'a list" where
  "collect [] = Inr []"
| "collect (x # xs) =
     (case x of
        Inl e \<Rightarrow> Inl e
      | Inr v \<Rightarrow> (case collect xs of Inl e \<Rightarrow> Inl e | Inr vs \<Rightarrow> Inr (v # vs)))"

text \<open>\<open>argmax(-1)\<close> of one row: the index of the first maximal value.\<close>

fun argmax_from :: "int \<Rightarrow> nat \<Rightarrow> nat \<Rightarrow> int list \<Rightarrow> nat" where
  "argmax_from best bi i [] = bi"
| "argmax_from best bi i (y # ys) =
     (if best < y then argmax_from y i (Suc i) ys else argmax_from best bi (Suc i) ys)"

definition argmax :: "int list \<Rightarrow> error + int" where
  "argmax xs =
     (case xs of
        [] \<Rightarrow> Inl (RuntimeError ''argmax(): empty dimension'')
      | x # ys \<Rightarrow> Inr (int (argmax_from x 0 1 ys)))"

text \<open>
  Lines 337 to 341. \<open>squeeze(-1)\<close> drops the last dimension of an \<open>[N, 1]\<close> tensor; an
  action of another shape is not modelled.
\<close>

definition forward_argmax_indices_ns :: "action_space \<Rightarrow> int list list \<Rightarrow> error + int list" where
  "forward_argmax_indices_ns space next_td_action =
     (if space = Categorical
      then (if list_all (\<lambda>r. length r = 1) next_td_action
            then Inr (map hd next_td_action)
            else Inl (Unmodelled ''the categorical action is not [N, 1]''))
      else collect (map argmax next_td_action))"

text \<open>
  An index into the last dimension: \<open>a\<close> in \<open>[0, A)\<close> reads position \<open>a\<close>, \<open>a\<close> in
  \<open>[-A, 0)\<close> reads position \<open>A + a\<close>, anything else raises.
\<close>

definition py_index :: "'a list \<Rightarrow> int \<Rightarrow> error + 'a" where
  "py_index xs a =
     (if 0 \<le> a \<and> a < int (length xs) then Inr (xs ! nat a)
      else if - int (length xs) \<le> a \<and> a < 0 then Inr (xs ! nat (int (length xs) + a))
      else Inl IndexError)"

text \<open>
  \<open>pns[range(batch_size), :, argmax_indices_ns]\<close>: row \<open>n\<close> of the result is
  \<open>pns[n, :, argmax_indices_ns[n]]\<close>. Index tensors of different lengths raise (the
  broadcast of a single index is left out).
\<close>

definition forward_index_pns ::
  "real list list list \<Rightarrow> nat \<Rightarrow> int list \<Rightarrow> error + real list list" where
  "forward_index_pns pns batch_size argmax_indices_ns =
     (if length argmax_indices_ns \<noteq> batch_size then Inl IndexError
      else collect (map (\<lambda>(n, a).
                      if n < length pns then collect (map (\<lambda>zs. py_index zs a) (pns ! n))
                      else Inl IndexError)
                    (zip [0..<batch_size] argmax_indices_ns)))"

text \<open>
  Lines 329 to 350: the network runs on \<open>next_td\<close> with the online snapshot, the action it
  wrote is read, the network runs again with the target snapshot, and the exponential of
  the \<open>action_value\<close> it wrote (a float32 operation, taken as correctly rounded) is
  indexed with the action.
\<close>

definition forward_pns_a ::
  "('w, 'o) DistributionalDQNLoss \<Rightarrow> nat \<Rightarrow> 'o next_td \<Rightarrow> error + real list list" where
  "forward_pns_a L batch_size next_td0 =
     (let next_td = run_value_network (loss_value_network L) (value_network_params L) next_td0
      in case nt_action next_td of
           None \<Rightarrow> Inl (KeyError [''action''])
         | Some next_td_action \<Rightarrow>
            (case forward_argmax_indices_ns (loss_action_space L) next_td_action of
               Inl e \<Rightarrow> Inl e
             | Inr argmax_indices_ns \<Rightarrow>
                (let next_td' = run_value_network (loss_value_network L)
                                  (target_value_network_params L) next_td
                 in case nt_action_value next_td' of
                      None \<Rightarrow> Inl (KeyError [''action_value''])
                    | Some action_value \<Rightarrow>
                        forward_index_pns (map (map (map (\<lambda>x. f32 (exp x)))) action_value)
                          batch_size argmax_indices_ns)))"

text \<open>
  \<open>DistributionalDQNLoss.forward\<close>, lines 287 to 396, with the pair \<open>(pns_a, m)\<close> as
  its result. The message of the error raised for a batch that is not one-dimensional reads
  the attribute \<open>__name___\<close> (with three underscores), which does not exist: the
  exception is an \<open>AttributeError\<close>.
\<close>

definition DistributionalDQNLoss_forward ::
  "('w, 'o) DistributionalDQNLoss \<Rightarrow> 'o transitions \<Rightarrow> error + real list list \<times> real list" where
  "DistributionalDQNLoss_forward L td =
     (if length (td_batch_size td) \<noteq> 1 then Inl AttributeError
      else
        let batch_size = hd (td_batch_size td);
            support = params_support (value_network_params L)
        in case forward_delta_z support of
             Inl e \<Rightarrow> Inl e
           | Inr delta_z \<Rightarrow>
              (let discount = forward_discount (loss_gamma L) (td_steps_to_next_obs td)
               in case forward_pns_a L batch_size (dqn_step_mdp td) of
                    Inl e \<Rightarrow> Inl e
                  | Inr pns_a \<Rightarrow>
                     (case forward_m batch_size support (td_next_reward td) (td_next_done td)
                             discount pns_a of
                        Inl e \<Rightarrow> Inl e
                      | Inr m \<Rightarrow> Inr (pns_a, m))))"

section \<open>The value estimators (value/advantages.py)\<close>

subsection \<open>Batches, tensors and parameters\<close>

text \<open>
  A key of a batch is a path of names: \<open>("next", "reward")\<close> is \<open>[''next'', ''reward'']\<close>
  and \<open>"advantage"\<close> is \<open>[''advantage'']\<close>. A tensor of shape \<open>[*B, T, 1]\<close> is the list
  of its trajectories, each the list of its \<open>T\<close> values; the flags of \<open>done\<close> are held
  as the numbers 0 and 1, which is what the estimators convert them to. The one integer
  entry, \<open>"steps_to_next_obs"\<close>, is a field of its own, in row-major order. \<open>set\<close>
  does not check the shape of what it stores.
\<close>

type_synonym key = "string list"

type_synonym tensor = "real list list"

record tensordict =
  batch_size :: "nat list"
  entries :: "key \<rightharpoonup> tensor"
  steps_to_next_obs :: "nat list option"

definition td_get :: "tensordict \<Rightarrow> key \<Rightarrow> error + tensor" where
  "td_get td k = (case entries td k of None \<Rightarrow> Inl (KeyError k) | Some t \<Rightarrow> Inr t)"

definition td_set :: "tensordict \<Rightarrow> key \<Rightarrow> tensor \<Rightarrow> tensordict" where
  "td_set td k t = td\<lparr>entries := (entries td)(k \<mapsto> t)\<rparr>"

text \<open>
  A parameter snapshot, and whether gradients flow into it: \<open>params.detach()\<close> is the
  same weights cut from the graph.
\<close>

record 'w params =
  weights :: 'w
  requires_grad :: bool

definition detach :: "'w params \<Rightarrow> 'w params" where
  "detach p = p\<lparr>requires_grad := False\<rparr>"

text \<open>
  Modelled from the spec: \<open>step_mdp\<close> (torchrl/envs/utils.py is not among the sources),
  the StepTransition of the spec, "producing the batch view whose current fields correspond
  to the original batch's next-step fields".
\<close>

definition step_mdp :: "tensordict \<Rightarrow> tensordict" where
  "step_mdp td = td\<lparr>entries := (\<lambda>k. entries td (''next'' # k))\<rparr>"

text \<open>Elementwise difference and sum; tensors of different shapes do not combine.\<close>

definition shape :: "tensor \<Rightarrow> nat list" where
  "shape t = map length t"

definition tensor_sub :: "tensor \<Rightarrow> tensor \<Rightarrow> error + tensor" where
  "tensor_sub a b =
     (if shape a = shape b then Inr (map2 (map2 (-)) a b)
      else Inl (RuntimeError ''The size of tensor a must match the size of tensor b''))"

definition tensor_add :: "tensor \<Rightarrow> tensor \<Rightarrow> error + tensor" where
  "tensor_add a b =
     (if shape a = shape b then Inr (map2 (map2 (+)) a b)
      else Inl (RuntimeError ''The size of tensor a must match the size of tensor b''))"

subsection \<open>The discount\<close>

text \<open>
  \<open>gamma = self.gamma\<close>, or \<open>gamma ** steps_to_next_obs.view_as(reward)\<close> when the batch
  has the entry; \<open>view_as\<close> raises when the numbers of elements differ.
\<close>

datatype gamma_tensor = Gamma real | GammaPow tensor

fun chop :: "nat list \<Rightarrow> 'a list \<Rightarrow> 'a list list" where
  "chop [] xs = []"
| "chop (n # ns) xs = take n xs # chop ns (drop n xs)"

definition view_as :: "'a list \<Rightarrow> tensor \<Rightarrow> error + 'a list list" where
  "view_as xs t =
     (if length xs = sum_list (shape t) then Inr (chop (shape t) xs)
      else Inl (RuntimeError ''shape is invalid for input size''))"

definition estimator_gamma :: "real \<Rightarrow> tensordict \<Rightarrow> tensor \<Rightarrow> error + gamma_tensor" where
  "estimator_gamma g td reward =
     (case steps_to_next_obs td of
        None \<Rightarrow> Inr (Gamma g)
      | Some ks \<Rightarrow>
          (case view_as ks reward of
             Inl e \<Rightarrow> Inl e
           | Inr kss \<Rightarrow> Inr (GammaPow (map (map (\<lambda>k. g ^ k)) kss))))"

subsection \<open>Standardization\<close>

text \<open>
  \<open>mean()\<close> and \<open>std()\<close> run over all elements; \<open>std()\<close> is the unbiased estimate, which
  divides by the number of elements less one. With fewer than two elements torch returns
  NaN, where the model stops.
\<close>

definition tensor_mean :: "tensor \<Rightarrow> real" where
  "tensor_mean t = sum_list (concat t) / real (length (concat t))"

definition tensor_std :: "tensor \<Rightarrow> real" where
  "tensor_std t =
     sqrt (sum_list (map (\<lambda>x. (x - tensor_mean t)\<^sup>2) (concat t)) / real (length (concat t) - 1))"

text \<open>
  \<open>reward = reward - reward.mean()\<close> and then
  \<open>reward = reward / reward.std().clamp_min(1e-4)\<close>: the deviation is that of the
  centred reward.
\<close>

definition standardize_rewards :: "tensor \<Rightarrow> error + tensor" where
  "standardize_rewards reward =
     (if length (concat reward) < 2 then Inl (Unmodelled ''std() is NaN'')
      else
        let centred = map (map (\<lambda>x. x - tensor_mean reward)) reward;
            scale = max (tensor_std centred) (1 / 10000)
        in Inr (map (map (\<lambda>x. x / scale)) centred))"

text \<open>
  \<open>loc = adv.mean()\<close>, \<open>scale = adv.std().clamp_min(1e-4)\<close>, \<open>adv = adv - loc\<close>,
  \<open>adv = adv / scale\<close>.
\<close>

definition standardize_gae :: "tensor \<Rightarrow> error + tensor" where
  "standardize_gae adv =
     (if length (concat adv) < 2 then Inl (Unmodelled ''std() is NaN'')
      else
        let loc = tensor_mean adv;
            scale = max (tensor_std adv) (1 / 10000)
        in Inr (map (map (\<lambda>x. (x - loc) / scale)) adv))"

text \<open>
  The standardization in the words of the spec:
  \<open>(reward - mean(reward)) / max(std(reward), 1e-4)\<close> over the whole batch.
\<close>

definition spec_standardized :: "tensor \<Rightarrow> tensor" where
  "spec_standardized reward =
     map (map (\<lambda>x. (x - tensor_mean reward) / max (tensor_std reward) (1 / 10000))) reward"

subsection \<open>The estimators and the functions they call\<close>

text \<open>
  The value network is outside the core: a function from the parameters it is called with
  (none for a network that holds its own) and the batch to the tensor it writes at
  \<open>value_key\<close>. \<open>is_stateless\<close> is the network's attribute of that name.
  \<open>differentiable\<close> (\<open>is_differentiable\<close> here) only switches the gradient mode and has no effect in the model.
\<close>

record 'w estimator =
  value_network :: "('w params option \<Rightarrow> tensordict \<Rightarrow> tensor) option"
  is_stateless :: bool
  gamma :: real
  lmbda :: real
  average_rewards :: bool
  average_gae :: bool
  vectorized :: bool
  is_differentiable :: bool
  advantage_key :: key
  value_target_key :: key
  value_key :: key
  skip_existing :: "bool option"

text \<open>
  The functions of value/functional.py, which is not among the sources, are parameters of
  the model: the estimators are verified for whatever these functions compute.
\<close>

record functional =
  td0_return_estimate :: "gamma_tensor \<Rightarrow> tensor \<Rightarrow> tensor \<Rightarrow> tensor \<Rightarrow> error + tensor"
  vec_td1_return_estimate ::
    "gamma_tensor \<Rightarrow> tensor \<Rightarrow> tensor \<Rightarrow> tensor \<Rightarrow> int \<Rightarrow> error + tensor"
  td_lambda_return_estimate ::
    "gamma_tensor \<Rightarrow> real \<Rightarrow> tensor \<Rightarrow> tensor \<Rightarrow> tensor \<Rightarrow> int \<Rightarrow> error + tensor"
  vec_td_lambda_return_estimate ::
    "gamma_tensor \<Rightarrow> real \<Rightarrow> tensor \<Rightarrow> tensor \<Rightarrow> tensor \<Rightarrow> int \<Rightarrow> error + tensor"
  generalized_advantage_estimate ::
    "gamma_tensor \<Rightarrow> real \<Rightarrow> tensor \<Rightarrow> tensor \<Rightarrow> tensor \<Rightarrow> tensor \<Rightarrow> int
       \<Rightarrow> error + tensor \<times> tensor"
  vec_generalized_advantage_estimate ::
    "gamma_tensor \<Rightarrow> real \<Rightarrow> tensor \<Rightarrow> tensor \<Rightarrow> tensor \<Rightarrow> tensor \<Rightarrow> int
       \<Rightarrow> error + tensor \<times> tensor"

text \<open>
  \<open>self.value_network(tensordict, **kwargs)\<close> writes the prediction at \<open>value_key\<close>.
  Under \<open>skip_existing = True\<close> (set by the decorator \<open>_self_set_skip_existing\<close>) a
  network whose output is already in the batch is not run; with \<open>skip_existing\<close> left
  at \<open>None\<close> the ambient setting applies, which is taken to be off.
\<close>

definition call_value_network ::
  "'w estimator \<Rightarrow> ('w params option \<Rightarrow> tensordict \<Rightarrow> tensor) \<Rightarrow> 'w params option
     \<Rightarrow> tensordict \<Rightarrow> tensordict" where
  "call_value_network e net kwargs td =
     (if skip_existing e = Some True \<and> entries td (value_key e) \<noteq> None then td
      else td_set td (value_key e) (net kwargs td))"

definition dims_message :: string where
  "dims_message = ''Expected input tensordict to have at least one dimensions''"

definition params_message :: string where
  "params_message = ''Expected params to be passed to advantage module but got none.''"

subsection \<open>\<open>value_estimate\<close> of \<open>TD0Estimator\<close>, \<open>TD1Estimator\<close> and \<open>TDLambdaEstimator\<close>\<close>

text \<open>
  The three methods share their text up to the call of the functional (lines 325 to 346,
  500 to 521 and 683 to 706): read the reward, compute the discount, standardize the
  reward and write it back when \<open>average_rewards\<close> is set, predict the next value with
  \<open>target_params\<close>, read \<open>done\<close>. The result holds the batch as the method leaves it.
\<close>

definition value_estimate_inputs ::
  "'w estimator \<Rightarrow> tensordict \<Rightarrow> 'w params option
     \<Rightarrow> error + tensordict \<times> gamma_tensor \<times> tensor \<times> tensor \<times> tensor" where
  "value_estimate_inputs e tensordict target_params =
     (case td_get tensordict [''next'', ''reward''] of
        Inl err \<Rightarrow> Inl err
      | Inr reward0 \<Rightarrow>
         (case estimator_gamma (gamma e) tensordict reward0 of
            Inl err \<Rightarrow> Inl err
          | Inr g \<Rightarrow>
             (case (if average_rewards e
                    then (case standardize_rewards reward0 of
                            Inl err \<Rightarrow> Inl err
                          | Inr r \<Rightarrow> Inr (r, td_set tensordict [''next'', ''reward''] r))
                    else Inr (reward0, tensordict)) of
                Inl err \<Rightarrow> Inl err
              | Inr (reward, td1) \<Rightarrow>
                 (let step_td = step_mdp td1;
                      step_td' = (case value_network e of
                                    None \<Rightarrow> step_td
                                  | Some net \<Rightarrow> call_value_network e net target_params step_td)
                  in case td_get step_td' (value_key e) of
                       Inl err \<Rightarrow> Inl err
                     | Inr next_value \<Rightarrow>
                        (case td_get td1 [''next'', ''done''] of
                           Inl err \<Rightarrow> Inl err
                         | Inr done \<Rightarrow> Inr (td1, g, next_value, reward, done))))))"

definition TD0Estimator_value_estimate ::
  "functional \<Rightarrow> 'w estimator \<Rightarrow> tensordict \<Rightarrow> 'w params option \<Rightarrow> error + tensordict \<times> tensor" where
  "TD0Estimator_value_estimate F e tensordict target_params =
     (case value_estimate_inputs e tensordict target_params of
        Inl err \<Rightarrow> Inl err
      | Inr (td1, g, next_value, reward, done) \<Rightarrow>
         (case td0_return_estimate F g next_value reward done of
            Inl err \<Rightarrow> Inl err
          | Inr value_target \<Rightarrow> Inr (td1, value_target)))"

definition TD1Estimator_value_estimate ::
  "functional \<Rightarrow> 'w estimator \<Rightarrow> tensordict \<Rightarrow> 'w params option \<Rightarrow> error + tensordict \<times> tensor" where
  "TD1Estimator_value_estimate F e tensordict target_params =
     (case value_estimate_inputs e tensordict target_params of
        Inl err \<Rightarrow> Inl err
      | Inr (td1, g, next_value, reward, done) \<Rightarrow>
         (case vec_td1_return_estimate F g next_value reward done
                 (int (length (batch_size tensordict)) - 1) of
            Inl err \<Rightarrow> Inl err
          | Inr value_target \<Rightarrow> Inr (td1, value_target)))"

definition TDLambdaEstimator_value_estimate ::
  "functional \<Rightarrow> 'w estimator \<Rightarrow> tensordict \<Rightarrow> 'w params option \<Rightarrow> error + tensordict \<times> tensor" where
  "TDLambdaEstimator_value_estimate F e tensordict target_params =
     (case value_estimate_inputs e tensordict target_params of
        Inl err \<Rightarrow> Inl err
      | Inr (td1, g, next_value, reward, done) \<Rightarrow>
         (case (if vectorized e
                then vec_td_lambda_return_estimate F g (lmbda e) next_value reward done
                       (int (length (batch_size tensordict)) - 1)
                else td_lambda_return_estimate F g (lmbda e) next_value reward done
                       (int (length (batch_size tensordict)) - 1)) of
            Inl err \<Rightarrow> Inl err
          | Inr val \<Rightarrow> Inr (td1, val)))"

subsection \<open>\<open>forward\<close> of the four estimators\<close>

text \<open>
  \<open>TD0Estimator.forward\<close>, lines 295 to 317. The network is called with no test for
  \<open>None\<close>; entering \<open>hold_out_net\<close> for \<open>None\<close> or calling \<open>None\<close> raises. The outputs go to the literal keys
  \<open>"advantage"\<close> and \<open>"value_target"\<close>.
\<close>

definition TD0Estimator_forward ::
  "functional \<Rightarrow> 'w estimator \<Rightarrow> tensordict \<Rightarrow> 'w params option \<Rightarrow> 'w params option
     \<Rightarrow> error + tensordict" where
  "TD0Estimator_forward F e tensordict params target_params =
     (if length (batch_size tensordict) < 1 then Inl (RuntimeError dims_message)
      else if is_stateless e \<and> params = None then Inl (RuntimeError params_message)
      else
        let kwargs = map_option detach params
        in case value_network e of
             None \<Rightarrow> Inl NoneNetworkError
           | Some net \<Rightarrow>
              (let td0 = call_value_network e net kwargs tensordict
               in case td_get td0 (value_key e) of
                    Inl err \<Rightarrow> Inl err
                  | Inr value \<Rightarrow>
                     (let target_params' =
                            (if params \<noteq> None \<and> target_params = None
                             then map_option detach params else target_params)
                      in case TD0Estimator_value_estimate F e td0 target_params' of
                           Inl err \<Rightarrow> Inl err
                         | Inr (td1, value_target) \<Rightarrow>
                            (case tensor_sub value_target value of
                               Inl err \<Rightarrow> Inl err
                             | Inr adv \<Rightarrow>
                                 Inr (td_set (td_set td1 [''advantage''] adv)
                                        [''value_target''] value_target)))))"

text \<open>\<open>TD1Estimator.forward\<close>, lines 469 to 492.\<close>

definition TD1Estimator_forward ::
  "functional \<Rightarrow> 'w estimator \<Rightarrow> tensordict \<Rightarrow> 'w params option \<Rightarrow> 'w params option
     \<Rightarrow> error + tensordict" where
  "TD1Estimator_forward F e tensordict params target_params =
     (if length (batch_size tensordict) < 1 then Inl (RuntimeError dims_message)
      else if is_stateless e \<and> params = None then Inl (RuntimeError params_message)
      else
        let kwargs = map_option detach params;
            td0 = (case value_network e of
                     None \<Rightarrow> tensordict
                   | Some net \<Rightarrow> call_value_network e net kwargs tensordict)
        in case td_get td0 (value_key e) of
             Inl err \<Rightarrow> Inl err
           | Inr value \<Rightarrow>
              (let target_params' =
                     (if params \<noteq> None \<and> target_params = None
                      then map_option detach params else target_params)
               in case TD1Estimator_value_estimate F e td0 target_params' of
                    Inl err \<Rightarrow> Inl err
                  | Inr (td1, value_target) \<Rightarrow>
                     (case tensor_sub value_target value of
                        Inl err \<Rightarrow> Inl err
                      | Inr adv \<Rightarrow>
                          Inr (td_set (td_set td1 [''advantage''] adv)
                                 [''value_target''] value_target))))"

text \<open>
  \<open>TDLambdaEstimator.forward\<close>, lines 653 to 675: the current value is predicted with
  \<open>params\<close> as given, and the outputs go to the configured keys.
\<close>

definition TDLambdaEstimator_forward ::
  "functional \<Rightarrow> 'w estimator \<Rightarrow> tensordict \<Rightarrow> 'w params option \<Rightarrow> 'w params option
     \<Rightarrow> error + tensordict" where
  "TDLambdaEstimator_forward F e tensordict params target_params =
     (if length (batch_size tensordict) < 1 then Inl (RuntimeError dims_message)
      else if is_stateless e \<and> params = None then Inl (RuntimeError params_message)
      else
        let kwargs = params;
            td0 = (case value_network e of
                     None \<Rightarrow> tensordict
                   | Some net \<Rightarrow> call_value_network e net kwargs tensordict)
        in case td_get td0 (value_key e) of
             Inl err \<Rightarrow> Inl err
           | Inr value \<Rightarrow>
              (let target_params' =
                     (if params \<noteq> None \<and> target_params = None
                      then map_option detach params else target_params)
               in case TDLambdaEstimator_value_estimate F e td0 target_params' of
                    Inl err \<Rightarrow> Inl err
                  | Inr (td1, value_target) \<Rightarrow>
                     (case tensor_sub value_target value of
                        Inl err \<Rightarrow> Inl err
                      | Inr adv \<Rightarrow>
                          Inr (td_set (td_set td1 (advantage_key e) adv)
                                 (value_target_key e) value_target))))"

text \<open>
  \<open>GAE.forward\<close>, lines 861 to 932. The keyword arguments of the second call of the
  network are \<open>target_params\<close> when given, else the detached \<open>params\<close> of the first
  call. \<open>value_target\<close> is what the functional returns; only \<open>adv\<close> is standardized.
\<close>

definition GAE_forward ::
  "functional \<Rightarrow> 'w estimator \<Rightarrow> tensordict \<Rightarrow> 'w params option \<Rightarrow> 'w params option
     \<Rightarrow> error + tensordict" where
  "GAE_forward F e tensordict params target_params =
     (if length (batch_size tensordict) < 1 then Inl (RuntimeError dims_message)
      else case td_get tensordict [''next'', ''reward''] of
        Inl err \<Rightarrow> Inl err
      | Inr reward \<Rightarrow>
         (case estimator_gamma (gamma e) tensordict reward of
            Inl err \<Rightarrow> Inl err
          | Inr g \<Rightarrow>
             if is_stateless e \<and> params = None then Inl (RuntimeError params_message)
             else
               let kwargs = params;
                   td0 = (case value_network e of
                            None \<Rightarrow> tensordict
                          | Some net \<Rightarrow> call_value_network e net kwargs tensordict)
               in case td_get td0 (value_key e) of
                    Inl err \<Rightarrow> Inl err
                  | Inr value \<Rightarrow>
                     (let step_td = step_mdp td0;
                          kwargs' = (if target_params \<noteq> None then target_params
                                     else map_option detach kwargs);
                          step_td' = (case value_network e of
                                        None \<Rightarrow> step_td
                                      | Some net \<Rightarrow> call_value_network e net kwargs' step_td)
                      in case td_get step_td' (value_key e) of
                           Inl err \<Rightarrow> Inl err
                         | Inr next_value \<Rightarrow>
                            (case td_get td0 [''next'', ''done''] of
                               Inl err \<Rightarrow> Inl err
                             | Inr done \<Rightarrow>
                                (case (if vectorized e
                                       then vec_generalized_advantage_estimate F g (lmbda e) value
                                              next_value reward done
                                              (int (length (batch_size tensordict)) - 1)
                                       else generalized_advantage_estimate F g (lmbda e) value
                                              next_value reward done
                                              (int (length (batch_size tensordict)) - 1)) of
                                   Inl err \<Rightarrow> Inl err
                                 | Inr (adv0, value_target) \<Rightarrow>
                                    (case (if average_gae e then standardize_gae adv0
                                           else Inr adv0) of
                                       Inl err \<Rightarrow> Inl err
                                     | Inr adv \<Rightarrow>
                                         Inr (td_set (td_set td0 (advantage_key e) adv)
                                                (value_target_key e) value_target)))))))"

subsection \<open>The functions of value/functional.py, from the spec\<close>

text \<open>
  Modelled from the spec: the return and advantage functions of value/functional.py,
  which is not among the sources, after the recursions of sections 4.1 and 4.2 of the
  spec. The sequential and the vectorized forms are one function, as the spec requires
  them to agree. The discount a function is given stands for \<open>gamma^k\<close> of the spec. The
  time dimension is the inner list of a tensor, so the argument \<open>time_dim\<close> is not used.
\<close>

definition gamma_like :: "gamma_tensor \<Rightarrow> tensor \<Rightarrow> error + tensor" where
  "gamma_like g reward =
     (case g of
        Gamma c \<Rightarrow> Inr (map (map (\<lambda>_. c)) reward)
      | GammaPow t \<Rightarrow>
          if shape t = shape reward then Inr t
          else Inl (RuntimeError ''The size of tensor a must match the size of tensor b''))"

text \<open>
  Modelled from the spec: TD(0),
  \<open>target[t] = reward[t] + gamma^k * (1 - done[t]) * next_value[t]\<close>, which "fails if
  reward/done/next_value shapes disagree".
\<close>

definition spec_td0_return_estimate ::
  "gamma_tensor \<Rightarrow> tensor \<Rightarrow> tensor \<Rightarrow> tensor \<Rightarrow> error + tensor" where
  "spec_td0_return_estimate g next_value reward done =
     (case gamma_like g reward of
        Inl err \<Rightarrow> Inl err
      | Inr gs \<Rightarrow>
          if shape next_value = shape reward \<and> shape done = shape reward
          then Inr (map (\<lambda>(gt, nt, rt, dt).
                           map (\<lambda>(c, nv, r, d). r + c * (1 - d) * nv) (zip gt (zip nt (zip rt dt))))
                      (zip gs (zip next_value (zip reward done))))
          else Inl (RuntimeError ''The size of tensor a must match the size of tensor b''))"

text \<open>
  Modelled from the spec: TD(1) on one trajectory, "\<open>G[T] = next_value[T-1]\<close>" and
  "\<open>G[t] = reward[t] + gamma^k * (1 - done[t]) * (done[t] ? next_value[t] : G[t+1])\<close>".
\<close>

fun spec_td1_trajectory :: "(real \<times> real \<times> real \<times> real) list \<Rightarrow> real list" where
  "spec_td1_trajectory [] = []"
| "spec_td1_trajectory ((c, nv, r, d) # rest) =
     (let G = spec_td1_trajectory rest;
          G_next = (case G of [] \<Rightarrow> nv | x # _ \<Rightarrow> x)
      in (r + c * (1 - d) * (if d \<noteq> 0 then nv else G_next)) # G)"

definition spec_td1_return_estimate ::
  "gamma_tensor \<Rightarrow> tensor \<Rightarrow> tensor \<Rightarrow> tensor \<Rightarrow> int \<Rightarrow> error + tensor" where
  "spec_td1_return_estimate g next_value reward done time_dim =
     (case gamma_like g reward of
        Inl err \<Rightarrow> Inl err
      | Inr gs \<Rightarrow>
          if shape next_value = shape reward \<and> shape done = shape reward
          then Inr (map (\<lambda>(gt, nt, rt, dt). spec_td1_trajectory (zip gt (zip nt (zip rt dt))))
                      (zip gs (zip next_value (zip reward done))))
          else Inl (RuntimeError ''The size of tensor a must match the size of tensor b''))"

text \<open>
  Modelled from the spec: TD(lambda) on one trajectory,
  "\<open>target[t] = reward[t] + gamma^k * (1 - done[t]) * ((1 - lmbda) * next_value[t] +
  lmbda * target[t+1])\<close>", "with \<open>target[T]\<close> seeded from a zero/absent bootstrap".
\<close>

fun spec_td_lambda_trajectory :: "real \<Rightarrow> (real \<times> real \<times> real \<times> real) list \<Rightarrow> real list" where
  "spec_td_lambda_trajectory l [] = []"
| "spec_td_lambda_trajectory l ((c, nv, r, d) # rest) =
     (let target = spec_td_lambda_trajectory l rest;
          target_next = (case target of [] \<Rightarrow> 0 | x # _ \<Rightarrow> x)
      in (r + c * (1 - d) * ((1 - l) * nv + l * target_next)) # target)"

definition spec_td_lambda_return_estimate ::
  "gamma_tensor \<Rightarrow> real \<Rightarrow> tensor \<Rightarrow> tensor \<Rightarrow> tensor \<Rightarrow> int \<Rightarrow> error + tensor" where
  "spec_td_lambda_return_estimate g l next_value reward done time_dim =
     (case gamma_like g reward of
        Inl err \<Rightarrow> Inl err
      | Inr gs \<Rightarrow>
          if shape next_value = shape reward \<and> shape done = shape reward
          then Inr (map (\<lambda>(gt, nt, rt, dt). spec_td_lambda_trajectory l (zip gt (zip nt (zip rt dt))))
                      (zip gs (zip next_value (zip reward done))))
          else Inl (RuntimeError ''The size of tensor a must match the size of tensor b''))"

text \<open>
  Modelled from the spec: GAE on one trajectory,
  "\<open>delta[t] = reward[t] + gamma^k * (1 - done[t]) * V'[t] - V[t]\<close>",
  "\<open>A[t] = delta[t] + gamma * lmbda * (1 - done[t]) * A[t+1]\<close>" with "\<open>A[T] = 0\<close>", and
  "\<open>value_target[t] = A[t] + V[t]\<close>".
\<close>

fun spec_gae_trajectory :: "real \<Rightarrow> (real \<times> real \<times> real \<times> real \<times> real) list \<Rightarrow> real list" where
  "spec_gae_trajectory l [] = []"
| "spec_gae_trajectory l ((c, v, nv, r, d) # rest) =
     (let A = spec_gae_trajectory l rest;
          A_next = (case A of [] \<Rightarrow> 0 | x # _ \<Rightarrow> x);
          delta = r + c * (1 - d) * nv - v
      in (delta + c * l * (1 - d) * A_next) # A)"

definition spec_generalized_advantage_estimate ::
  "gamma_tensor \<Rightarrow> real \<Rightarrow> tensor \<Rightarrow> tensor \<Rightarrow> tensor \<Rightarrow> tensor \<Rightarrow> int
     \<Rightarrow> error + tensor \<times> tensor" where
  "spec_generalized_advantage_estimate g l value next_value reward done time_dim =
     (case gamma_like g reward of
        Inl err \<Rightarrow> Inl err
      | Inr gs \<Rightarrow>
          if shape value = shape reward \<and> shape next_value = shape reward
             \<and> shape done = shape reward
          then
            let adv = map (\<lambda>(gt, vt, nt, rt, dt).
                             spec_gae_trajectory l (zip gt (zip vt (zip nt (zip rt dt)))))
                        (zip gs (zip value (zip next_value (zip reward done))))
            in (case tensor_add adv value of
                  Inl err \<Rightarrow> Inl err
                | Inr value_target \<Rightarrow> Inr (adv, value_target))
          else Inl (RuntimeError ''The size of tensor a must match the size of tensor b''))"

definition spec_functional :: functional where
  "spec_functional =
     \<lparr>td0_return_estimate = spec_td0_return_estimate,
      vec_td1_return_estimate = spec_td1_return_estimate,
      td_lambda_return_estimate = spec_td_lambda_return_estimate,
      vec_td_lambda_return_estimate = spec_td_lambda_return_estimate,
      generalized_advantage_estimate = spec_generalized_advantage_estimate,
      vec_generalized_advantage_estimate = spec_generalized_advantage_estimate\<rparr>"
section \<open>Concrete inputs\<close>

text \<open>
  A support of 8 float32 atoms from 0 to 19: the multiples of \<open>19 / 7\<close>, rounded.
\<close>

definition atoms_0_19 :: "real list" where
  "atoms_0_19 = [0, 11384539 / 4194304, 11384539 / 2097152, 8538405 / 1048576,
                 11384539 / 1048576, 7115337 / 524288, 8538405 / 524288, 19]"

text \<open>
  Next-state distributions over these atoms: one uniform row, and two rows that put all
  their mass on the first atom.
\<close>

definition uniform_row :: "real list list" where
  "uniform_row = [[1 / 8, 1 / 8, 1 / 8, 1 / 8, 1 / 8, 1 / 8, 1 / 8, 1 / 8]]"

definition certain_rows :: "real list list" where
  "certain_rows = [[1, 0, 0, 0, 0, 0, 0, 0], [1, 0, 0, 0, 0, 0, 0, 0]]"

text \<open>
  A loss module over three actions and two atoms whose online and target snapshots
  disagree: the online network picks the second action, the target network would pick the
  first. Each network writes the logarithms of a distribution per action.
\<close>

definition example_network :: "nat dqn_params \<Rightarrow> unit \<Rightarrow> int list list \<times> real list list list" where
  "example_network p obs =
     (if params_weights p = 0
      then ([[0, 1, 0]], [[[ln (1 / 2), ln (3 / 8), ln (1 / 8)], [ln (1 / 2), ln (5 / 8), ln (7 / 8)]]])
      else ([[1, 0, 0]], [[[ln (1 / 8), ln (1 / 4), ln (1 / 2)], [ln (7 / 8), ln (3 / 4), ln (1 / 2)]]]))"

definition example_loss :: "(nat, unit) DistributionalDQNLoss" where
  "example_loss =
     \<lparr>loss_gamma = 1, loss_action_space = OneHot, loss_value_network = example_network,
      value_network_params = \<lparr>params_support = [0, 1], params_weights = 0\<rparr>,
      target_value_network_params = \<lparr>params_support = [0, 1], params_weights = 1\<rparr>\<rparr>"

definition example_transitions :: "unit transitions" where
  "example_transitions =
     \<lparr>td_batch_size = [1], td_next_observation = (), td_next_reward = [Fin 0],
      td_next_done = [False], td_steps_to_next_obs = None\<rparr>"

text \<open>
  A value network that scales the observation by its weight, an estimator configured with
  keys of its own, and a trajectory of three steps that ends at the third.
\<close>

definition example_value_network :: "real params option \<Rightarrow> tensordict \<Rightarrow> tensor" where
  "example_value_network kwargs td =
     (case entries td [''observation''] of
        None \<Rightarrow> []
      | Some obs \<Rightarrow> map (map (\<lambda>x. (case kwargs of None \<Rightarrow> 1 | Some p \<Rightarrow> weights p) * x)) obs)"

definition example_estimator :: "real estimator" where
  "example_estimator =
     \<lparr>value_network = Some example_value_network, is_stateless = True, gamma = 1,
      lmbda = 1 / 2, average_rewards = True, average_gae = True, vectorized = True,
      is_differentiable = False, advantage_key = [''adv''], value_target_key = [''vt''],
      value_key = [''state_value''], skip_existing = None\<rparr>"

definition example_params :: "real params" where
  "example_params = \<lparr>weights = 1, requires_grad = True\<rparr>"

definition example_batch :: tensordict where
  "example_batch =
     \<lparr>batch_size = [3],
      entries = [[''observation''] \<mapsto> [[2, 1, 0]], [''next'', ''observation''] \<mapsto> [[1, 0, 0]],
                 [''next'', ''reward''] \<mapsto> [[1, 3, 5]], [''next'', ''done''] \<mapsto> [[0, 0, 1]]],
      steps_to_next_obs = None\<rparr>"

definition example_gae_batch :: tensordict where
  "example_gae_batch =
     \<lparr>batch_size = [3],
      entries = [[''observation''] \<mapsto> [[2, 1, 0]], [''next'', ''observation''] \<mapsto> [[1, 0, 0]],
                 [''next'', ''reward''] \<mapsto> [[1 / 2, 3 / 2, 5]], [''next'', ''done''] \<mapsto> [[0, 0, 1]]],
      steps_to_next_obs = None\<rparr>"

text \<open>A batch with one batch dimension, the time dimension, of length zero.\<close>

definition zero_steps_batch :: tensordict where
  "zero_steps_batch =
     \<lparr>batch_size = [0],
      entries = [[''observation''] \<mapsto> [[]], [''next'', ''observation''] \<mapsto> [[]],
                 [''next'', ''reward''] \<mapsto> [[]], [''next'', ''done''] \<mapsto> [[]]],
      steps_to_next_obs = None\<rparr>"

text \<open>A batch with no batch dimension at all.\<close>

definition no_dims_batch :: tensordict where
  "no_dims_batch = \<lparr>batch_size = [], entries = Map.empty, steps_to_next_obs = None\<rparr>"

text \<open>The same estimator with both standardizations switched off.\<close>

definition plain_estimator :: "real estimator" where
  "plain_estimator = example_estimator\<lparr>average_rewards := False, average_gae := False\<rparr>"


section \<open>Properties of the rounding\<close>

lemma pow2_powr: "pow2 k = 2 powr (of_int k)"
proof (cases "0 \<le> k")
  case True
  then have "2 powr (of_int k) = (2::real) powr (real (nat k))" by simp
  also have "\<dots> = 2 ^ nat k" by (simp only: powr_realpow [of 2 "nat k"] zero_less_numeral)
  finally show ?thesis using True by (simp add: pow2_def)
next
  case False
  then have "(2::real) powr (of_int k) = 2 powr (- real (nat (- k)))" by simp
  also have "\<dots> = 1 / 2 powr (real (nat (- k)))" by (simp only: powr_minus_divide)
  also have "\<dots> = 1 / 2 ^ nat (- k)" by (simp only: powr_realpow [of 2 "nat (- k)"] zero_less_numeral)
  finally show ?thesis using False by (simp add: pow2_def)
qed

lemma pow2_pos: "0 < pow2 k"
  by (simp add: pow2_powr)

lemma pow2_add: "pow2 (a + b) = pow2 a * pow2 b"
  by (simp add: pow2_powr powr_add)

lemma pow2_nat: "pow2 (int n) = 2 ^ n"
  by (simp add: pow2_def)

lemma pow2_neg_nat: "pow2 (- int n) = 1 / 2 ^ n"
  by (simp add: pow2_powr powr_minus_divide powr_realpow)

lemma floor_log2:
  assumes "pow2 k \<le> x" "x < pow2 (k + 1)"
  shows "\<lfloor>log 2 x\<rfloor> = k"
proof -
  have x: "0 < x" using assms(1) pow2_pos [of k] by linarith
  have "of_int k \<le> log 2 x"
    using assms(1) x by (simp add: le_log_iff pow2_powr)
  moreover have "log 2 x < of_int k + 1"
    using assms(2) x by (simp add: log_less_iff pow2_powr)
  ultimately show ?thesis by linarith
qed

lemma log2_bracket:
  assumes "0 < x"
  shows "pow2 \<lfloor>log 2 x\<rfloor> \<le> x" and "x < pow2 (\<lfloor>log 2 x\<rfloor> + 1)"
proof -
  have x: "2 powr log 2 x = x" using assms by simp
  have "(2::real) powr of_int \<lfloor>log 2 x\<rfloor> \<le> 2 powr log 2 x"
    by (intro powr_mono) simp_all
  then show "pow2 \<lfloor>log 2 x\<rfloor> \<le> x" using x by (simp add: pow2_powr)
  have "log 2 x < of_int (\<lfloor>log 2 x\<rfloor> + 1)" by linarith
  then have "(2::real) powr log 2 x < 2 powr of_int (\<lfloor>log 2 x\<rfloor> + 1)"
    by (intro powr_less_mono) simp_all
  then show "x < pow2 (\<lfloor>log 2 x\<rfloor> + 1)" using x by (simp only: pow2_powr)
qed

lemma round_even_near: "\<bar>of_int (round_even y) - y\<bar> \<le> 1 / 2"
  unfolding round_even_def by (auto; linarith)

lemma float_round_zero: "float_round p 0 = 0"
  by (simp add: float_round_def)

lemma float_round_error:
  assumes "0 < x"
  shows "\<bar>float_round p x - x\<bar> \<le> x / 2 ^ p"
proof -
  define e where "e = \<lfloor>log 2 x\<rfloor>"
  define y where "y = x * pow2 (int p - 1 - e)"
  have br: "pow2 e \<le> x" unfolding e_def by (rule log2_bracket(1) [OF assms])
  have fr: "float_round p x = of_int (round_even y) * pow2 (e - (int p - 1))"
    using assms unfolding float_round_def y_def e_def by simp
  have inv: "pow2 (int p - 1 - e) * pow2 (e - (int p - 1)) = 1"
    using pow2_add [of "int p - 1 - e" "e - (int p - 1)"] by (simp add: pow2_def)
  have xy: "x = y * pow2 (e - (int p - 1))"
    unfolding y_def using inv by (simp add: mult.assoc)
  have "float_round p x - x = (of_int (round_even y) - y) * pow2 (e - (int p - 1))"
    unfolding fr using xy by (simp add: algebra_simps)
  then have "\<bar>float_round p x - x\<bar> = \<bar>of_int (round_even y) - y\<bar> * pow2 (e - (int p - 1))"
    using pow2_pos [of "e - (int p - 1)"] by (simp add: abs_mult)
  also have "\<dots> \<le> 1 / 2 * pow2 (e - (int p - 1))"
    using round_even_near [of y] pow2_pos [of "e - (int p - 1)"]
    by (intro mult_right_mono) simp_all
  also have "1 / 2 * pow2 (e - (int p - 1)) = pow2 e * pow2 (- int p)"
  proof -
    have "pow2 (e - (int p - 1)) = pow2 e * pow2 (- int p) * pow2 1"
      using pow2_add [of "e + - int p" 1] pow2_add [of e "- int p"] by (simp add: algebra_simps)
    then show ?thesis by (simp add: pow2_def)
  qed
  also have "\<dots> \<le> x * pow2 (- int p)"
    using br pow2_pos [of "- int p"] by (intro mult_right_mono) simp_all
  also have "\<dots> = x / 2 ^ p" by (simp add: pow2_neg_nat)
  finally show ?thesis .
qed

lemma float_round_lower:
  assumes "0 \<le> x"
  shows "x * (1 - 1 / 2 ^ p) \<le> float_round p x"
proof (cases "x = 0")
  case True
  then show ?thesis by (simp add: float_round_zero)
next
  case False
  with assms have "0 < x" by simp
  from float_round_error [OF this, of p] show ?thesis by (simp add: algebra_simps abs_le_iff)
qed

lemma float_round_upper:
  assumes "0 \<le> x"
  shows "float_round p x \<le> x * (1 + 1 / 2 ^ p)"
proof (cases "x = 0")
  case True
  then show ?thesis by (simp add: float_round_zero)
next
  case False
  with assms have "0 < x" by simp
  from float_round_error [OF this, of p] show ?thesis by (simp add: algebra_simps abs_le_iff)
qed

lemma float_round_nonneg:
  assumes "0 \<le> x"
  shows "0 \<le> float_round p x"
proof -
  have "(1::real) / 2 ^ p \<le> 1" by simp
  then have "0 \<le> x * (1 - 1 / 2 ^ p)" using assms by (intro mult_nonneg_nonneg) simp_all
  with float_round_lower [OF assms, of p] show ?thesis by linarith
qed

lemma float_round_pos:
  assumes "0 < x" "0 < p"
  shows "0 < float_round p x"
proof -
  have "(2::real) ^ p \<ge> 2 ^ 1" using assms(2) by (intro power_increasing) simp_all
  then have "(1::real) / 2 ^ p < 1" by simp
  then have "0 < x * (1 - 1 / 2 ^ p)" using assms(1) by (intro mult_pos_pos) simp_all
  with float_round_lower [of x p] assms(1) show ?thesis by linarith
qed

lemma float_round_eval:
  assumes "x \<noteq> 0"
    and "pow2 (expo_from 64 0 \<bar>x\<bar>) \<le> \<bar>x\<bar>"
    and "\<bar>x\<bar> < pow2 (expo_from 64 0 \<bar>x\<bar> + 1)"
  shows "float_round p x =
           sgn x * of_int (round_even (\<bar>x\<bar> * pow2 (int p - 1 - expo_from 64 0 \<bar>x\<bar>)))
             * pow2 (expo_from 64 0 \<bar>x\<bar> - (int p - 1))"
  using assms(1) floor_log2 [OF assms(2,3)] by (simp add: float_round_def)

lemma expo_from_numeral:
  "expo_from (numeral k) e x =
     (if 2 \<le> x then expo_from (pred_numeral k) (e + 1) (x / 2)
      else if x < 1 then expo_from (pred_numeral k) (e - 1) (2 * x)
      else e)"
  by (simp add: numeral_eq_Suc)

lemmas float_eval = float_round_eval float_round_zero pow2_def round_even_def expo_from_numeral


section \<open>Properties of the categorical projection\<close>

lemma fix_low_le: "real_of_int (fix_low \<lfloor>x\<rfloor> \<lceil>x\<rceil>) \<le> x"
  unfolding fix_low_def by (auto; linarith)

lemma fix_up_ge: "x \<le> real_of_int (fix_up Z l \<lceil>x\<rceil>)"
  unfolding fix_up_def by (auto; linarith)

lemma fix_cell:
  assumes "0 \<le> x" "x < real Z" "2 \<le> Z"
  shows "0 \<le> fix_low \<lfloor>x\<rfloor> \<lceil>x\<rceil>"
    and "fix_low \<lfloor>x\<rfloor> \<lceil>x\<rceil> \<le> int Z - 1"
    and "x < real_of_int (fix_up Z (fix_low \<lfloor>x\<rfloor> \<lceil>x\<rceil>) \<lceil>x\<rceil>) \<or>
         (real_of_int (fix_low \<lfloor>x\<rfloor> \<lceil>x\<rceil>) < x \<and>
          0 \<le> fix_up Z (fix_low \<lfloor>x\<rfloor> \<lceil>x\<rceil>) \<lceil>x\<rceil> \<and>
          fix_up Z (fix_low \<lfloor>x\<rfloor> \<lceil>x\<rceil>) \<lceil>x\<rceil> \<le> int Z - 1)"
proof -
  have f0: "0 \<le> \<lfloor>x\<rfloor>" using assms(1) by simp
  have fZ: "\<lfloor>x\<rfloor> \<le> int Z - 1"
  proof -
    have "x < real_of_int (int Z)" using assms(2) by simp
    then have "\<lfloor>x\<rfloor> < int Z" by (simp only: floor_less_iff)
    then show ?thesis by simp
  qed
  consider (int) "\<lceil>x\<rceil> = \<lfloor>x\<rfloor>" | (frac) "\<lceil>x\<rceil> = \<lfloor>x\<rfloor> + 1"
    using ceiling_altdef [of x] by (auto split: if_splits)
  then have all: "0 \<le> fix_low \<lfloor>x\<rfloor> \<lceil>x\<rceil> \<and> fix_low \<lfloor>x\<rfloor> \<lceil>x\<rceil> \<le> int Z - 1 \<and>
     (x < real_of_int (fix_up Z (fix_low \<lfloor>x\<rfloor> \<lceil>x\<rceil>) \<lceil>x\<rceil>) \<or>
         (real_of_int (fix_low \<lfloor>x\<rfloor> \<lceil>x\<rceil>) < x \<and>
          0 \<le> fix_up Z (fix_low \<lfloor>x\<rfloor> \<lceil>x\<rceil>) \<lceil>x\<rceil> \<and>
          fix_up Z (fix_low \<lfloor>x\<rfloor> \<lceil>x\<rceil>) \<lceil>x\<rceil> \<le> int Z - 1))"
  proof cases
    case int
    then have xi: "x = real_of_int \<lfloor>x\<rfloor>"
      by (metis ceiling_correct floor_correct order_antisym less_eq_real_def)
    show ?thesis
    proof (cases "0 < \<lfloor>x\<rfloor>")
      case True
      have "real_of_int (\<lfloor>x\<rfloor> - 1) < x" using xi by linarith
      with True int fZ show ?thesis
        unfolding fix_low_def fix_up_def by auto
    next
      case False
      with f0 have z: "\<lfloor>x\<rfloor> = 0" by linarith
      then have "x = 0" using xi by simp
      with z int assms(3) show ?thesis
        unfolding fix_low_def fix_up_def by auto
    qed
  next
    case frac
    have "x < real_of_int (\<lfloor>x\<rfloor> + 1)" by linarith
    with frac f0 fZ show ?thesis
      unfolding fix_low_def fix_up_def by auto
  qed
  from all show "0 \<le> fix_low \<lfloor>x\<rfloor> \<lceil>x\<rceil>" by simp
  from all show "fix_low \<lfloor>x\<rfloor> \<lceil>x\<rceil> \<le> int Z - 1" by simp
  from all show "x < real_of_int (fix_up Z (fix_low \<lfloor>x\<rfloor> \<lceil>x\<rceil>) \<lceil>x\<rceil>) \<or>
         (real_of_int (fix_low \<lfloor>x\<rfloor> \<lceil>x\<rceil>) < x \<and>
          0 \<le> fix_up Z (fix_low \<lfloor>x\<rfloor> \<lceil>x\<rceil>) \<lceil>x\<rceil> \<and>
          fix_up Z (fix_low \<lfloor>x\<rfloor> \<lceil>x\<rceil>) \<lceil>x\<rceil> \<le> int Z - 1)" by simp
qed

lemma clamp_range:
  assumes "lo \<le> hi" "isfinite (clamp lo hi v)"
  shows "lo \<le> the_fin (clamp lo hi v) \<and> the_fin (clamp lo hi v) \<le> hi"
  using assms by (cases v) auto

lemma rounding_margin:
  assumes "k \<le> (2::real) ^ 20" "0 \<le> k"
  shows "k * (1 + 1 / 2 ^ 24)\<^sup>2 < (k + 1) * ((1 - 1 / 2 ^ 53)\<^sup>2 * (1 - 1 / 2 ^ 24))"
proof -
  define a :: real where "a = (1 + 1 / 2 ^ 24)\<^sup>2"
  define c :: real where "c = (1 - 1 / 2 ^ 53)\<^sup>2 * (1 - 1 / 2 ^ 24)"
  have ac: "0 \<le> a - c" and m: "2 ^ 20 * (a - c) < c"
    unfolding a_def c_def by (simp_all add: power2_eq_square)
  have "k * (a - c) \<le> 2 ^ 20 * (a - c)" using assms(1) ac by (rule mult_right_mono)
  with m have "k * (a - c) < c" by linarith
  then have "k * a < (k + 1) * c" by (simp add: algebra_simps)
  then show ?thesis unfolding a_def c_def .
qed

lemma b_range:
  assumes D: "lo < hi" and Z: "2 \<le> Z" "Z \<le> 2 ^ 20" and t: "lo \<le> t" "t \<le> hi"
  shows "0 \<le> f32 (f32 (t - lo) / f32 (f64 (f64 (hi - lo) / real (Z - 1))))"
    and "f32 (f32 (t - lo) / f32 (f64 (f64 (hi - lo) / real (Z - 1)))) < real Z"
proof -
  define u :: real where "u = 1 / 2 ^ 24"
  define v :: real where "v = 1 / 2 ^ 53"
  define k where "k = real (Z - 1)"
  define c where "c = (1 - v)\<^sup>2 * (1 - u)"
  define dz where "dz = f32 (f64 (f64 (hi - lo) / k))"
  define num where "num = f32 (t - lo)"
  have u: "0 < 1 - u" "0 < 1 + u" and v: "0 < 1 - v" unfolding u_def v_def by simp_all
  have c: "0 < c" unfolding c_def using u v by simp
  have k: "0 < k" "k \<le> 2 ^ 20" "k + 1 = real Z"
  proof -
    show "0 < k" unfolding k_def using Z(1) by simp
    have "Z - 1 \<le> 2 ^ 20" using Z(2) by simp
    then have "real (Z - 1) \<le> real (2 ^ 20)" by (simp only: of_nat_le_iff)
    then show "k \<le> 2 ^ 20" unfolding k_def by simp
    show "k + 1 = real Z" unfolding k_def using Z(1) by (simp add: of_nat_diff)
  qed
  have d: "0 < hi - lo" using D by simp
  have d1: "(hi - lo) * (1 - v) \<le> f64 (hi - lo)"
    unfolding v_def using d by (intro float_round_lower) simp
  have d1p: "0 < f64 (hi - lo)" using d by (intro float_round_pos) simp_all
  have q1p: "0 < f64 (hi - lo) / k" using d1p k(1) by simp
  have "f64 (hi - lo) / k * (1 - v) \<le> f64 (f64 (hi - lo) / k)"
    unfolding v_def using q1p by (intro float_round_lower) simp
  moreover have "(hi - lo) * (1 - v) / k * (1 - v) \<le> f64 (hi - lo) / k * (1 - v)"
    using d1 k(1) v by (intro mult_right_mono divide_right_mono) simp_all
  ultimately have d2: "(hi - lo) * (1 - v) / k * (1 - v) \<le> f64 (f64 (hi - lo) / k)" by linarith
  have d2p: "0 < f64 (f64 (hi - lo) / k)" using q1p by (intro float_round_pos) simp_all
  have "f64 (f64 (hi - lo) / k) * (1 - u) \<le> dz"
    unfolding u_def dz_def using d2p by (intro float_round_lower) simp
  moreover have "(hi - lo) * (1 - v) / k * (1 - v) * (1 - u) \<le> f64 (f64 (hi - lo) / k) * (1 - u)"
    using d2 u(1) by (intro mult_right_mono) simp_all
  ultimately have "(hi - lo) * (1 - v) / k * (1 - v) * (1 - u) \<le> dz" by linarith
  moreover have "(hi - lo) * (1 - v) / k * (1 - v) * (1 - u) = (hi - lo) * c / k"
    unfolding c_def by (simp add: power2_eq_square)
  ultimately have dz: "(hi - lo) * c / k \<le> dz" by (simp only:)
  have Lp: "0 < (hi - lo) * c / k" using d c k(1) by simp
  have n0: "0 \<le> num" unfolding num_def using t(1) by (intro float_round_nonneg) simp
  have "num \<le> (t - lo) * (1 + u)"
    unfolding num_def u_def using t(1) by (intro float_round_upper) simp
  moreover have "(t - lo) * (1 + u) \<le> (hi - lo) * (1 + u)"
    using t(2) u(2) by (intro mult_right_mono) simp_all
  ultimately have n1: "num \<le> (hi - lo) * (1 + u)" by linarith
  have dzp: "0 < dz" using Lp dz by linarith
  have q0: "0 \<le> num / dz" using n0 dzp by simp
  have "num / dz \<le> (hi - lo) * (1 + u) / ((hi - lo) * c / k)"
    using n0 n1 Lp dz by (intro frac_le) simp_all
  also have "\<dots> = k * (1 + u) / c" using d by simp
  finally have q1: "num / dz \<le> k * (1 + u) / c" .
  have b0: "0 \<le> f32 (num / dz)" using q0 by (rule float_round_nonneg)
  have "f32 (num / dz) \<le> num / dz * (1 + u)"
    unfolding u_def using q0 by (rule float_round_upper)
  also have "\<dots> \<le> k * (1 + u) / c * (1 + u)"
    using q1 u(2) by (intro mult_right_mono) simp_all
  also have "\<dots> = k * (1 + u)\<^sup>2 / c" by (simp add: power2_eq_square)
  also have "\<dots> < k + 1"
  proof -
    have "k * (1 + u)\<^sup>2 < (k + 1) * c"
      unfolding u_def c_def v_def using k(1,2) by (intro rounding_margin) simp_all
    then show ?thesis using c by (simp add: pos_divide_less_eq)
  qed
  finally have b1: "f32 (num / dz) < real Z" using k(3) by simp
  from b0 show "0 \<le> f32 (f32 (t - lo) / f32 (f64 (f64 (hi - lo) / real (Z - 1))))"
    unfolding num_def dz_def k_def .
  from b1 show "f32 (f32 (t - lo) / f32 (f64 (f64 (hi - lo) / real (Z - 1)))) < real Z"
    unfolding num_def dz_def k_def .
qed


lemma tensor_min_le_max: "xs \<noteq> [] \<Longrightarrow> tensor_min xs \<le> tensor_max xs"
  by (induction xs rule: tensor_min.induct) auto

lemma index_add_length: "index_add m is vs = Inr m' \<Longrightarrow> length m' = length m"
  by (induction m "is" vs arbitrary: m' rule: index_add.induct) (auto split: if_splits)

lemma index_add_positive:
  assumes "index_add m is vs = Inr m'" "\<forall>x\<in>set m. 0 \<le> x" "\<forall>v\<in>set vs. 0 \<le> v"
  shows "(\<forall>x\<in>set m'. 0 \<le> x) \<and> (\<forall>j<length m. 0 < m ! j \<longrightarrow> 0 < m' ! j) \<and>
         (\<forall>(i, v)\<in>set (zip is vs). 0 < v \<longrightarrow> 0 < m' ! nat i)"
  using assms
proof (induction m "is" vs arbitrary: m' rule: index_add.induct)
  case (1 m)
  then show ?case by simp
next
  case (2 m i "is" v vs)
  let ?m1 = "m[nat i := f32 (m ! nat i + v)]"
  from "2.prems"(1) have rng: "0 \<le> i" "i < int (length m)"
    and rest: "index_add ?m1 is vs = Inr m'"
    by (auto split: if_splits)
  have j: "nat i < length m" using rng by simp
  have v0: "0 \<le> v" and vs0: "\<forall>v\<in>set vs. 0 \<le> v" using "2.prems"(3) by simp_all
  have mi: "0 \<le> m ! nat i" using "2.prems"(2) j by simp
  have new: "0 \<le> f32 (m ! nat i + v)" using mi v0 by (intro float_round_nonneg) simp
  have m1: "\<forall>x\<in>set ?m1. 0 \<le> x"
    using "2.prems"(2) new set_update_subset_insert [of m "nat i" "f32 (m ! nat i + v)"] by auto
  have keep: "0 < ?m1 ! k" if "k < length m" "0 < m ! k" for k
  proof (cases "k = nat i")
    case True
    have "0 < f32 (m ! nat i + v)" using that v0 True by (intro float_round_pos) simp_all
    then show ?thesis using True j by simp
  next
    case False
    then show ?thesis using that by simp
  qed
  have hit: "0 < ?m1 ! nat i" if "0 < v"
  proof -
    have "0 < f32 (m ! nat i + v)" using that mi by (intro float_round_pos) simp_all
    then show ?thesis using j by simp
  qed
  from "2.IH" [OF _ rest m1 vs0] rng
  have IH: "\<forall>x\<in>set m'. 0 \<le> x" "\<forall>j<length ?m1. 0 < ?m1 ! j \<longrightarrow> 0 < m' ! j"
    "\<forall>(i, v)\<in>set (zip is vs). 0 < v \<longrightarrow> 0 < m' ! nat i"
    by simp_all
  have a: "\<forall>k<length m. 0 < m ! k \<longrightarrow> 0 < m' ! k" using keep IH(2) by simp
  have b: "0 < v \<longrightarrow> 0 < m' ! nat i" using hit IH(2) j by simp
  from IH(1) a b IH(3) show ?case by simp
qed simp_all

lemma zip_upt_nth:
  "length xs = N \<Longrightarrow> zip xs (map f [0..<N]) = map (\<lambda>n. (xs ! n, f n)) [0..<N]"
  by (rule nth_equalityI) simp_all

lemma zip3_upt_nth:
  "length xs = N \<Longrightarrow> length ys = N \<Longrightarrow> length zs = N \<Longrightarrow>
     zip xs (zip ys zs) = map (\<lambda>n. (xs ! n, ys ! n, zs ! n)) [0..<N]"
  by (rule nth_equalityI) simp_all

lemma flat_index_rows:
  "length t = N \<Longrightarrow>
     flat_index t (forward_offset N Z) =
     concat (map (\<lambda>n. map (\<lambda>i. i + int (n * Z)) (t ! n)) [0..<N])"
  unfolding flat_index_def forward_offset_def
  by (simp add: zip_upt_nth o_def)

lemma flat_low_rows:
  assumes "length b = N"
  shows "flat_index (forward_low b) (forward_offset N Z) =
     concat (map (\<lambda>n. map (\<lambda>x. fix_low \<lfloor>x\<rfloor> \<lceil>x\<rceil> + int (n * Z)) (b ! n)) [0..<N])"
proof -
  have len: "length (forward_low b) = N" using assms by (simp add: forward_low_def)
  have "map (\<lambda>n. map (\<lambda>i. i + int (n * Z)) (forward_low b ! n)) [0..<N] =
        map (\<lambda>n. map (\<lambda>x. fix_low \<lfloor>x\<rfloor> \<lceil>x\<rceil> + int (n * Z)) (b ! n)) [0..<N]"
    using assms by (intro map_cong refl) (simp add: forward_low_def o_def)
  then show ?thesis by (simp only: flat_index_rows [OF len])
qed

lemma flat_up_rows:
  assumes "length b = N"
  shows "flat_index (forward_up Z b) (forward_offset N Z) =
     concat (map (\<lambda>n. map (\<lambda>x. fix_up Z (fix_low \<lfloor>x\<rfloor> \<lceil>x\<rceil>) \<lceil>x\<rceil> + int (n * Z)) (b ! n)) [0..<N])"
proof -
  have len: "length (forward_up Z b) = N" using assms by (simp add: forward_up_def)
  have "map (\<lambda>n. map (\<lambda>i. i + int (n * Z)) (forward_up Z b ! n)) [0..<N] =
        map (\<lambda>n. map (\<lambda>x. fix_up Z (fix_low \<lfloor>x\<rfloor> \<lceil>x\<rceil>) \<lceil>x\<rceil> + int (n * Z)) (b ! n)) [0..<N]"
    using assms by (intro map_cong refl) (simp add: forward_up_def o_def)
  then show ?thesis by (simp only: flat_index_rows [OF len])
qed

lemma zip_map_same: "zip (map f xs) xs = map (\<lambda>x. (f x, x)) xs"
  by (induction xs) simp_all

lemma weight_low_rows:
  assumes "length pns_a = N" "length b = N"
  shows "weight_low pns_a (forward_up Z b) b =
     concat (map (\<lambda>n. map (\<lambda>(p, x). f32 (p * f32 (real_of_int (fix_up Z (fix_low \<lfloor>x\<rfloor> \<lceil>x\<rceil>) \<lceil>x\<rceil>) - x)))
                          (zip (pns_a ! n) (b ! n))) [0..<N])"
proof -
  have len: "length (forward_up Z b) = N" using assms by (simp add: forward_up_def)
  have "map (\<lambda>(ps, us, bs). map (\<lambda>(p, u, x). f32 (p * f32 (real_of_int u - x))) (zip ps (zip us bs)))
          (map (\<lambda>n. (pns_a ! n, forward_up Z b ! n, b ! n)) [0..<N]) =
        map (\<lambda>n. map (\<lambda>(p, x). f32 (p * f32 (real_of_int (fix_up Z (fix_low \<lfloor>x\<rfloor> \<lceil>x\<rceil>) \<lceil>x\<rceil>) - x)))
                          (zip (pns_a ! n) (b ! n))) [0..<N]"
    unfolding map_map
    using assms by (intro map_cong refl) (simp add: forward_up_def zip_map_same zip_map2 o_def split_def)
  then show ?thesis
    unfolding weight_low_def by (simp only: zip3_upt_nth [OF assms(1) len assms(2)])
qed

lemma weight_up_rows:
  assumes "length pns_a = N" "length b = N"
  shows "weight_up pns_a (forward_low b) b =
     concat (map (\<lambda>n. map (\<lambda>(p, x). f32 (p * f32 (x - real_of_int (fix_low \<lfloor>x\<rfloor> \<lceil>x\<rceil>))))
                          (zip (pns_a ! n) (b ! n))) [0..<N])"
proof -
  have len: "length (forward_low b) = N" using assms by (simp add: forward_low_def)
  have "map (\<lambda>(ps, ls, bs). map (\<lambda>(p, l, x). f32 (p * f32 (x - real_of_int l))) (zip ps (zip ls bs)))
          (map (\<lambda>n. (pns_a ! n, forward_low b ! n, b ! n)) [0..<N]) =
        map (\<lambda>n. map (\<lambda>(p, x). f32 (p * f32 (x - real_of_int (fix_low \<lfloor>x\<rfloor> \<lceil>x\<rceil>))))
                          (zip (pns_a ! n) (b ! n))) [0..<N]"
    unfolding map_map
    using assms by (intro map_cong refl) (simp add: forward_low_def zip_map_same zip_map2 o_def split_def)
  then show ?thesis
    unfolding weight_up_def by (simp only: zip3_upt_nth [OF assms(1) len assms(2)])
qed

lemma has_shape_nth: "has_shape t N Z \<Longrightarrow> n < N \<Longrightarrow> length (t ! n) = Z"
  unfolding has_shape_def list_all_iff by auto

lemma forward_b_shape: "has_shape Tz N Z \<Longrightarrow> has_shape (forward_b lo dz Tz) N Z"
  unfolding has_shape_def forward_b_def list_all_iff by auto

lemma concat_rows_length: "\<forall>k<N. length (F k) = Z \<Longrightarrow> length (concat (map F [0..<N])) = N * Z"
  by (induction N) simp_all

lemma concat_rows_nth:
  "\<forall>k<N. length (F k) = Z \<Longrightarrow> n < N \<Longrightarrow> z < Z \<Longrightarrow>
     concat (map F [0..<N]) ! (n * Z + z) = F n ! z"
proof (induction N)
  case 0
  then show ?case by simp
next
  case (Suc N)
  have len: "length (concat (map F [0..<N])) = N * Z"
    using Suc.prems(1) by (intro concat_rows_length) simp
  show ?case
  proof (cases "n < N")
    case True
    then have "Suc n * Z \<le> N * Z" by (intro mult_le_mono1) simp
    then have "n * Z + z < N * Z" using Suc.prems(3) by simp
    then show ?thesis using Suc True len by (simp add: nth_append)
  next
    case False
    with Suc.prems(2) have "n = N" by simp
    then show ?thesis using len by (simp add: nth_append)
  qed
qed

lemma cell_in_accumulator: "n < N \<Longrightarrow> z < Z \<Longrightarrow> n * Z + z < N * (Z::nat)"
proof -
  assume n: "n < N" and z: "z < Z"
  have "Suc n * Z \<le> N * Z" using n by (intro mult_le_mono1) simp
  then show ?thesis using z by simp
qed

lemma row_nth:
  assumes "n * Z + z < length m" "z < Z"
  shows "m ! (n * Z + z) \<in> set (row Z m n)"
proof -
  have "z < length (row Z m n)" unfolding row_def using assms by simp
  moreover have "row Z m n ! z = m ! (n * Z + z)" unfolding row_def using assms by simp
  ultimately show ?thesis by (metis nth_mem)
qed

lemma positive_entry:
  fixes ps :: "real list"
  assumes "\<forall>p\<in>set ps. 0 \<le> p" "sum_list ps \<noteq> 0"
  shows "\<exists>z<length ps. 0 < ps ! z"
proof (rule ccontr)
  assume "\<not> (\<exists>z<length ps. 0 < ps ! z)"
  then have "\<forall>p\<in>set ps. p = 0" using assms(1) by (force simp: in_set_conv_nth)
  then have "sum_list ps = 0" by (induction ps) simp_all
  with assms(2) show False by simp
qed


lemma nat_shift: "0 \<le> i \<Longrightarrow> nat (i + int k) = k + nat i"
  by simp

lemma forward_scatter_row:
  assumes sc: "forward_scatter N Z b pns_a = Inr m"
    and b: "has_shape b N Z"
    and g: "\<forall>r\<in>set b. \<forall>x\<in>set r. 0 \<le> x \<and> x < real Z"
    and Z: "2 \<le> Z"
    and n: "n < N"
    and s: "sum_list (pns_a ! n) \<noteq> 0"
  shows "\<exists>x\<in>set (row Z m n). x \<noteq> 0"
proof -
  let ?lo = "\<lambda>x. fix_low \<lfloor>x\<rfloor> \<lceil>x\<rceil>"
  let ?up = "\<lambda>x. fix_up Z (fix_low \<lfloor>x\<rfloor> \<lceil>x\<rceil>) \<lceil>x\<rceil>"
  let ?FL = "\<lambda>n. map (\<lambda>x. ?lo x + int (n * Z)) (b ! n)"
  let ?FU = "\<lambda>n. map (\<lambda>x. ?up x + int (n * Z)) (b ! n)"
  let ?GL = "\<lambda>n. map (\<lambda>(p, x). f32 (p * f32 (real_of_int (?up x) - x))) (zip (pns_a ! n) (b ! n))"
  let ?GU = "\<lambda>n. map (\<lambda>(p, x). f32 (p * f32 (x - real_of_int (?lo x)))) (zip (pns_a ! n) (b ! n))"
  let ?IL = "concat (map ?FL [0..<N])" and ?IU = "concat (map ?FU [0..<N])"
  let ?WL = "concat (map ?GL [0..<N])" and ?WU = "concat (map ?GU [0..<N])"
  let ?m0 = "replicate (N * Z) (0::real)"
  from sc have p: "has_shape pns_a N Z" and p0: "list_all (list_all (\<lambda>p. 0 \<le> p)) pns_a"
    unfolding forward_scatter_def by (auto split: if_splits)
  have lb: "length b = N" and lp: "length pns_a = N" using b p by (simp_all add: has_shape_def)
  have rb: "length (b ! k) = Z" and rp: "length (pns_a ! k) = Z" if "k < N" for k
    using has_shape_nth [OF b that] has_shape_nth [OF p that] by simp_all
  have eqs: "flat_index (forward_low b) (forward_offset N Z) = ?IL"
    "flat_index (forward_up Z b) (forward_offset N Z) = ?IU"
    "weight_low pns_a (forward_up Z b) b = ?WL"
    "weight_up pns_a (forward_low b) b = ?WU"
    using flat_low_rows [OF lb] flat_up_rows [OF lb] weight_low_rows [OF lp lb]
      weight_up_rows [OF lp lb] by simp_all
  from sc p p0 obtain m1 where m1: "index_add ?m0 ?IL ?WL = Inr m1"
    and m2: "index_add m1 ?IU ?WU = Inr m"
    unfolding forward_scatter_def by (auto simp: Let_def eqs split: sum.splits)
  have l1: "length m1 = N * Z" using index_add_length [OF m1] by simp
  have l2: "length m = N * Z" using index_add_length [OF m2] l1 by simp
  have pn: "0 \<le> q" if "k < N" "q \<in> set (pns_a ! k)" for k q
  proof -
    have "pns_a ! k \<in> set pns_a" using that(1) lp by simp
    with p0 that(2) show ?thesis unfolding list_all_iff by blast
  qed
  have wl0: "\<forall>v\<in>set ?WL. 0 \<le> v"
  proof
    fix v assume "v \<in> set ?WL"
    then obtain k q x where k: "k < N" and qx: "(q, x) \<in> set (zip (pns_a ! k) (b ! k))"
      and v: "v = f32 (q * f32 (real_of_int (?up x) - x))" by auto
    have "0 \<le> q" using pn [OF k] qx by (meson set_zip_leftD)
    moreover have "0 \<le> f32 (real_of_int (?up x) - x)"
      using fix_up_ge [of x Z "?lo x"] by (intro float_round_nonneg) simp
    ultimately have "0 \<le> q * f32 (real_of_int (?up x) - x)" by (rule mult_nonneg_nonneg)
    then show "0 \<le> v" unfolding v by (rule float_round_nonneg)
  qed
  have wu0: "\<forall>v\<in>set ?WU. 0 \<le> v"
  proof
    fix v assume "v \<in> set ?WU"
    then obtain k q x where k: "k < N" and qx: "(q, x) \<in> set (zip (pns_a ! k) (b ! k))"
      and v: "v = f32 (q * f32 (x - real_of_int (?lo x)))" by auto
    have "0 \<le> q" using pn [OF k] qx by (meson set_zip_leftD)
    moreover have "0 \<le> f32 (x - real_of_int (?lo x))"
      using fix_low_le [of x] by (intro float_round_nonneg) simp
    ultimately have "0 \<le> q * f32 (x - real_of_int (?lo x))" by (rule mult_nonneg_nonneg)
    then show "0 \<le> v" unfolding v by (rule float_round_nonneg)
  qed
  from index_add_positive [OF m1 _ wl0]
  have A: "\<forall>x\<in>set m1. 0 \<le> x" "\<forall>(i, v)\<in>set (zip ?IL ?WL). 0 < v \<longrightarrow> 0 < m1 ! nat i"
    by simp_all
  from index_add_positive [OF m2 A(1) wu0]
  have B: "\<forall>j<length m1. 0 < m1 ! j \<longrightarrow> 0 < m ! j"
    "\<forall>(i, v)\<in>set (zip ?IU ?WU). 0 < v \<longrightarrow> 0 < m ! nat i"
    by simp_all
  have "\<exists>z<length (pns_a ! n). 0 < pns_a ! n ! z"
    using pn [OF n] s by (intro positive_entry) simp_all
  then obtain z where z: "z < Z" and pz: "0 < pns_a ! n ! z" using rp [OF n] by auto
  define x where "x = b ! n ! z"
  define q where "q = pns_a ! n ! z"
  have xin: "x \<in> set (b ! n)" unfolding x_def using rb [OF n] z by simp
  have "b ! n \<in> set b" using n lb by simp
  with g xin have xr: "0 \<le> x" "x < real Z" by blast+
  have pos: "n * Z + z < N * Z" using n z by (rule cell_in_accumulator)
  have lens: "length ?IL = N * Z" "length ?WL = N * Z" "length ?IU = N * Z" "length ?WU = N * Z"
    using rb rp by (simp_all add: concat_rows_length)
  have iL: "?IL ! (n * Z + z) = ?lo x + int (n * Z)"
    using rb n z by (simp add: concat_rows_nth x_def)
  have iU: "?IU ! (n * Z + z) = ?up x + int (n * Z)"
    using rb n z by (simp add: concat_rows_nth x_def)
  have wL: "?WL ! (n * Z + z) = f32 (q * f32 (real_of_int (?up x) - x))"
    using rb rp n z by (simp add: concat_rows_nth x_def q_def)
  have wU: "?WU ! (n * Z + z) = f32 (q * f32 (x - real_of_int (?lo x)))"
    using rb rp n z by (simp add: concat_rows_nth x_def q_def)
  have inL: "(?lo x + int (n * Z), f32 (q * f32 (real_of_int (?up x) - x))) \<in> set (zip ?IL ?WL)"
    using pos lens iL wL by (metis (no_types, lifting) in_set_zip fst_conv snd_conv)
  have inU: "(?up x + int (n * Z), f32 (q * f32 (x - real_of_int (?lo x)))) \<in> set (zip ?IU ?WU)"
    using pos lens iU wU by (metis (no_types, lifting) in_set_zip fst_conv snd_conv)
  have hit: "\<exists>j<Z. 0 < m ! (n * Z + j)"
  proof -
    from fix_cell(3) [OF xr Z]
    consider (low) "x < real_of_int (?up x)"
      | (up) "real_of_int (?lo x) < x" "0 \<le> ?up x" "?up x \<le> int Z - 1" by blast
    then show ?thesis
    proof cases
      case low
      have "0 < f32 (real_of_int (?up x) - x)" using low by (intro float_round_pos) simp_all
      then have "0 < q * f32 (real_of_int (?up x) - x)"
        using pz unfolding q_def by (intro mult_pos_pos)
      then have "0 < f32 (q * f32 (real_of_int (?up x) - x))"
        by (intro float_round_pos) simp_all
      with A(2) inL have "0 < m1 ! nat (?lo x + int (n * Z))" by blast
      moreover have lr: "0 \<le> ?lo x" "?lo x \<le> int Z - 1" using fix_cell(1,2) [OF xr Z] by simp_all
      then have idx: "nat (?lo x + int (n * Z)) = n * Z + nat (?lo x)" by (intro nat_shift)
      have j: "nat (?lo x) < Z" using lr by simp
      have "n * Z + nat (?lo x) < length m1" unfolding l1 using n j by (rule cell_in_accumulator)
      ultimately have "0 < m ! (n * Z + nat (?lo x))" using B(1) idx by simp
      with j show ?thesis by blast
    next
      case up
      have "0 < f32 (x - real_of_int (?lo x))" using up(1) by (intro float_round_pos) simp_all
      then have "0 < q * f32 (x - real_of_int (?lo x))"
        using pz unfolding q_def by (intro mult_pos_pos)
      then have "0 < f32 (q * f32 (x - real_of_int (?lo x)))"
        by (intro float_round_pos) simp_all
      with B(2) inU have "0 < m ! nat (?up x + int (n * Z))" by blast
      moreover have idx: "nat (?up x + int (n * Z)) = n * Z + nat (?up x)"
        using up(2) by (intro nat_shift)
      moreover have "nat (?up x) < Z" using up(2,3) by simp
      ultimately show ?thesis by auto
    qed
  qed
  then obtain j where j: "j < Z" and mj: "0 < m ! (n * Z + j)" by blast
  have "n * Z + j < length m" unfolding l2 using n j by (rule cell_in_accumulator)
  then have "m ! (n * Z + j) \<in> set (row Z m n)" using j by (rule row_nth)
  with mj show ?thesis by force
qed

lemma forward_m_InrD:
  assumes "forward_m N support reward done discount pns_a = Inr m"
  shows "tensor_min support < tensor_max support"
    and "2 \<le> length support" and "length support \<le> 2 ^ 20"
    and "\<exists>Tz. forward_clamped_Tz N support reward done discount = Inr Tz \<and>
          forward_scatter N (length support)
            (forward_b (tensor_min support)
               (f64 (f64 (tensor_max support - tensor_min support) / real (length support - 1))) Tz)
            pns_a = Inr m"
proof -
  from assms obtain dz Tz where dz: "forward_delta_z support = Inr dz"
    and Tz: "forward_clamped_Tz N support reward done discount = Inr Tz"
    and nz: "dz \<noteq> 0" and Zm: "\<not> 2 ^ 20 < length support"
    and sc: "forward_scatter N (length support) (forward_b (tensor_min support) dz Tz) pns_a = Inr m"
    unfolding forward_m_def by (auto split: sum.splits if_splits)
  from dz have ne: "support \<noteq> []" and l: "length support - 1 \<noteq> 0"
    and dzv: "dz = f64 (f64 (tensor_max support - tensor_min support) / real (length support - 1))"
    unfolding forward_delta_z_def by (auto split: if_splits)
  from nz dzv have "tensor_max support \<noteq> tensor_min support"
    by (auto simp: float_round_zero)
  with tensor_min_le_max [OF ne] show "tensor_min support < tensor_max support" by simp
  from l show "2 \<le> length support" by simp
  from Zm show "length support \<le> 2 ^ 20" by simp
  from Tz sc dzv show "\<exists>Tz. forward_clamped_Tz N support reward done discount = Inr Tz \<and>
          forward_scatter N (length support)
            (forward_b (tensor_min support)
               (f64 (f64 (tensor_max support - tensor_min support) / real (length support - 1))) Tz)
            pns_a = Inr m"
    by auto
qed

lemma clamped_b_range:
  assumes V: "tensor_min support < tensor_max support"
    and Z: "2 \<le> length support" "length support \<le> 2 ^ 20"
    and C: "forward_clamped_Tz N support reward done discount = Inr Tz"
  shows "has_shape Tz N (length support)"
    and "\<forall>r\<in>set (forward_b (tensor_min support)
               (f64 (f64 (tensor_max support - tensor_min support) / real (length support - 1))) Tz).
           \<forall>x\<in>set r. 0 \<le> x \<and> x < real (length support)"
proof -
  let ?lo = "tensor_min support" and ?hi = "tensor_max support"
  from C obtain Tz0 where Tz0: "forward_Tz reward done discount support = Inr Tz0"
    and sh: "has_shape Tz0 N (length support)"
    and Tz: "Tz = map (map (clamp ?lo ?hi)) Tz0"
    and fin: "list_all (list_all isfinite) Tz"
    unfolding forward_clamped_Tz_def by (auto simp: Let_def split: sum.splits if_splits)
  show "has_shape Tz N (length support)"
    using sh unfolding Tz has_shape_def list_all_iff by auto
  have cell: "0 \<le> f32 (f32 (the_fin t - ?lo) / f32 (f64 (f64 (?hi - ?lo) / real (length support - 1)))) \<and>
              f32 (f32 (the_fin t - ?lo) / f32 (f64 (f64 (?hi - ?lo) / real (length support - 1))))
                < real (length support)"
    if "r \<in> set Tz" "t \<in> set r" for r t
  proof -
    from that obtain v where t: "t = clamp ?lo ?hi v" unfolding Tz by auto
    have "isfinite t" using fin that unfolding list_all_iff by blast
    then have "?lo \<le> the_fin t \<and> the_fin t \<le> ?hi"
      unfolding t using V by (intro clamp_range) simp_all
    then show ?thesis using b_range [OF V Z] by blast
  qed
  show "\<forall>r\<in>set (forward_b ?lo (f64 (f64 (?hi - ?lo) / real (length support - 1))) Tz).
           \<forall>x\<in>set r. 0 \<le> x \<and> x < real (length support)"
    unfolding forward_b_def using cell by auto
qed

lemma forward_m_row:
  assumes run: "forward_m N support reward done discount pns_a = Inr m" and n: "n < N"
    and s: "sum_list (pns_a ! n) \<noteq> 0"
  shows "\<exists>x\<in>set (row (length support) m n). x \<noteq> 0"
proof -
  note D = forward_m_InrD [OF run]
  from D(4) obtain Tz
    where C: "forward_clamped_Tz N support reward done discount = Inr Tz"
      and sc: "forward_scatter N (length support)
            (forward_b (tensor_min support)
               (f64 (f64 (tensor_max support - tensor_min support) / real (length support - 1))) Tz)
            pns_a = Inr m"
    by blast
  note R = clamped_b_range [OF D(1,2,3) C]
  from forward_scatter_row [OF sc forward_b_shape [OF R(1)] R(2) D(2) n s] show ?thesis .
qed

text \<open>
  Claim C2, as amended. \<open>low\<close> is decremented where \<open>low = up\<close> and \<open>up > 0\<close>. \<open>up\<close> is
  incremented only where \<open>low\<close> still equals \<open>up\<close> after that, which is where
  \<open>low = up\<close>, \<open>up\<close> is not positive and \<open>low < Z - 1\<close>: the two adjustments never
  both change a cell. A row of \<open>pns_a\<close> whose sum is not zero (a probability row) never
  projects to an all-zero row of \<open>m\<close>, wherever \<open>Tz\<close> lands.
\<close>

theorem degenerate_bin_fix:
  "fix_low low up = (if low = up \<and> 0 < up then low - 1 else low) \<and>
   fix_up Z (fix_low low up) up =
     (if low = up \<and> \<not> 0 < up \<and> low < int Z - 1 then up + 1 else up) \<and>
   (forward_m N support reward done discount pns_a = Inr m \<and> n < N \<and>
    sum_list (pns_a ! n) \<noteq> 0 \<longrightarrow> (\<exists>x\<in>set (row (length support) m n). x \<noteq> 0))"
proof (intro conjI impI)
  show "fix_low low up = (if low = up \<and> 0 < up then low - 1 else low)"
    unfolding fix_low_def by auto
  show "fix_up Z (fix_low low up) up =
     (if low = up \<and> \<not> 0 < up \<and> low < int Z - 1 then up + 1 else up)"
    unfolding fix_low_def fix_up_def by auto
  assume a: "forward_m N support reward done discount pns_a = Inr m \<and> n < N \<and>
    sum_list (pns_a ! n) \<noteq> 0"
  then show "\<exists>x\<in>set (row (length support) m n). x \<noteq> 0"
    using forward_m_row [of N support reward "done" discount pns_a m n] by simp
qed

lemmas forward_m_eval =
  forward_m_def forward_delta_z_def forward_clamped_Tz_def forward_Tz_def
  discount_rows_def has_shape_def forward_scatter_def forward_b_def forward_low_def
  forward_up_def forward_offset_def flat_index_def weight_low_def weight_up_def
  fix_low_def fix_up_def Let_def float_eval

text \<open>
  A batch whose \<open>Tz\<close> lands on the atom 1 in every cell (\<open>b = 1\<close>): the mass of the row is
  kept, on atom 1.
\<close>

theorem degenerate_bin_fix_witness:
  "forward_m 1 [0, 1, 2] [Fin 1] [False] (Scalar 0) [[1 / 4, 1 / 4, 1 / 2]] = Inr [0, 1, 0] \<and>
   (0::nat) < 1 \<and> sum_list ([[1 / 4, 1 / 4, 1 / 2 :: real]] ! 0) \<noteq> 0 \<and>
   (\<exists>x\<in>set (row (length [0, 1, 2 :: real]) [0, 1, 0] 0). x \<noteq> 0)"
proof -
  have run: "forward_m 1 [0, 1, 2] [Fin 1] [False] (Scalar 0) [[1 / 4, 1 / 4, 1 / 2]] = Inr [0, 1, 0]"
    by (simp add: forward_m_eval)
  have h: "(0::nat) < 1" "sum_list ([[1 / 4, 1 / 4, 1 / 2 :: real]] ! 0) \<noteq> 0" by simp_all
  from degenerate_bin_fix [of 0 0 3 1 "[0, 1, 2]" "[Fin 1]" "[False]" "Scalar 0"
      "[[1 / 4, 1 / 4, 1 / 2]]" "[0, 1, 0]" 0] run h
  show ?thesis by blast
qed

text \<open>
  Claim C2 as stated fails: in a cell with \<open>low = up = 1\<close> and \<open>Z = 3\<close>, where
  \<open>up > 0\<close> and \<open>low < Z - 1\<close>, \<open>low\<close> is decremented and \<open>up\<close> is not incremented:
  the two adjustments do not both apply.
\<close>

theorem degenerate_bin_fix_counterexample:
  "(1::int) = 1 \<and> 0 < (1::int) \<and> (1::int) < int 3 - 1 \<and>
   fix_low 1 1 = 1 - 1 \<and> fix_up 3 (fix_low 1 1) 1 \<noteq> 1 + 1"
  by (simp add: fix_low_def fix_up_def)

lemma index_add_error:
  "index_add m is vs = Inl e \<Longrightarrow>
     e = IndexError \<or> e = RuntimeError ''index_add_: index and source differ in length''"
  by (induction m "is" vs rule: index_add.induct) (auto split: if_splits)

lemma forward_scatter_error:
  "forward_scatter N Z b pns_a \<noteq> Inl (RuntimeError ''Tz has some non-finite elements'')"
proof
  assume a: "forward_scatter N Z b pns_a = Inl (RuntimeError ''Tz has some non-finite elements'')"
  then show False
    unfolding forward_scatter_def
    by (auto simp: Let_def split: if_splits sum.splits dest!: index_add_error)
qed

lemma clamp_finite_iff: "isfinite (clamp lo hi v) \<longleftrightarrow> v \<noteq> NaN"
  by (cases v) simp_all

text \<open>
  Claim C3, as amended. With a support of at least two atoms and a \<open>Tz\<close> of shape
  \<open>[N, Z]\<close>, the call raises "Tz has some non-finite elements" exactly when \<open>Tz\<close> holds
  a NaN before the clamp; an infinite element is clamped to a bound of the support and
  does not raise.
\<close>

theorem nan_raises_infinity_is_clamped:
  assumes S: "forward_delta_z support = Inr dz"
    and T: "forward_Tz reward done discount support = Inr Tz"
    and H: "has_shape Tz N (length support)"
  shows "forward_m N support reward done discount pns_a =
           Inl (RuntimeError ''Tz has some non-finite elements'')
         \<longleftrightarrow> (\<exists>r\<in>set Tz. NaN \<in> set r)"
proof -
  let ?c = "map (map (clamp (tensor_min support) (tensor_max support))) Tz"
  have fin: "list_all (list_all isfinite) ?c \<longleftrightarrow> \<not> (\<exists>r\<in>set Tz. NaN \<in> set r)"
    unfolding list_all_iff by (auto simp: clamp_finite_iff)
  show ?thesis
  proof (cases "\<exists>r\<in>set Tz. NaN \<in> set r")
    case True
    then have "forward_clamped_Tz N support reward done discount =
        Inl (RuntimeError ''Tz has some non-finite elements'')"
      unfolding forward_clamped_Tz_def using T H fin by (simp add: Let_def)
    then show ?thesis unfolding forward_m_def using S True by simp
  next
    case False
    then have "forward_clamped_Tz N support reward done discount = Inr ?c"
      unfolding forward_clamped_Tz_def using T H fin by (simp add: Let_def)
    then show ?thesis
      unfolding forward_m_def using S False forward_scatter_error by simp
  qed
qed

text \<open>A NaN reward makes every element of \<open>Tz\<close> a NaN, and the call raises.\<close>

theorem nan_raises_infinity_is_clamped_witness:
  "forward_delta_z [0, 1] = Inr 1 \<and>
   forward_Tz [NaN] [False] (Scalar (9 / 10)) [0, 1] = Inr [[NaN, NaN]] \<and>
   has_shape [[NaN, NaN]] 1 (length [0, 1 :: real]) \<and>
   forward_m 1 [0, 1] [NaN] [False] (Scalar (9 / 10)) [[1 / 2, 1 / 2]] =
     Inl (RuntimeError ''Tz has some non-finite elements'')"
proof -
  have h: "forward_delta_z [0, 1] = Inr 1"
    "forward_Tz [NaN] [False] (Scalar (9 / 10)) [0, 1] = Inr [[NaN, NaN]]"
    "has_shape [[NaN, NaN]] 1 (length [0, 1 :: real])"
    by (simp_all add: forward_delta_z_def forward_Tz_def discount_rows_def has_shape_def)
      (simp_all add: float_eval)
  from nan_raises_infinity_is_clamped [OF h, of "[[1 / 2, 1 / 2]]"] h show ?thesis by simp
qed

text \<open>
  Claim C3 as stated fails: an infinite reward makes \<open>Tz\<close> infinite, the clamp puts it on
  \<open>V_max\<close>, and the call returns a projected mass.
\<close>

theorem infinite_Tz_counterexample:
  "forward_Tz [PInf] [False] (Scalar (9 / 10)) [0, 1] = Inr [[PInf, PInf]] \<and>
   \<not> isfinite PInf \<and>
   forward_m 1 [0, 1] [PInf] [False] (Scalar (9 / 10)) [[1 / 2, 1 / 2]] = Inr [0, 1]"
  by (simp add: forward_m_eval)


lemma replicate_numeral: "replicate (numeral k) x = x # replicate (pred_numeral k) x"
  by (simp add: numeral_eq_Suc)

lemma list_update_numeral: "(x # xs)[numeral k := y] = x # xs[pred_numeral k := y]"
  by (simp add: numeral_eq_Suc)

lemmas list_eval = upt_rec replicate_numeral list_update_numeral

text \<open>
  Claim C1 fails on the code. On the support of 8 atoms from 0 to 19, a transition that
  ends with the reward 19 has \<open>Tz = V_max\<close> in every cell, and the float32 quotient
  \<open>b = 19 / float32(19 / 7)\<close> is \<open>7 + 2^-21\<close>, above \<open>Z - 1 = 7\<close>: \<open>up\<close> is \<open>8 = Z\<close>.
  For the batch of this one transition, with a finite reward and a uniform \<open>pns_a\<close> of
  shape \<open>[1, 8]\<close>, the second \<open>index_add_\<close> raises and no mass is returned. For a batch of
  two transitions, the row of the first sums to \<open>1 - 2^-21\<close> and the row of the second to
  \<open>1 + 2^-21\<close>, where both rows of \<open>pns_a\<close> sum to 1.
\<close>

theorem projection_raises_at_V_max:
  "list_all isfinite [Fin 19] \<and> has_shape uniform_row 1 (length atoms_0_19) \<and>
   sum_list (uniform_row ! 0) = 1 \<and>
   forward_m 1 atoms_0_19 [Fin 19] [True] (Scalar (99 / 100)) uniform_row = Inl IndexError \<and>
   forward_m 2 atoms_0_19 [Fin 19, Fin 0] [True, True] (Scalar (99 / 100)) certain_rows =
     Inr [0, 0, 0, 0, 0, 0, 0, 2097151 / 2097152, 2097153 / 2097152, 0, 0, 0, 0, 0, 0, 0] \<and>
   sum_list (certain_rows ! 0) = 1 \<and> sum_list (certain_rows ! 1) = 1 \<and>
   sum_list (row (length atoms_0_19)
               [0, 0, 0, 0, 0, 0, 0, 2097151 / 2097152, 2097153 / 2097152, 0, 0, 0, 0, 0, 0, 0] 0)
     = 1 - 1 / 2 ^ 21 \<and>
   sum_list (row (length atoms_0_19)
               [0, 0, 0, 0, 0, 0, 0, 2097151 / 2097152, 2097153 / 2097152, 0, 0, 0, 0, 0, 0, 0] 1)
     = 1 + 1 / 2 ^ 21"
  by (simp add: forward_m_eval atoms_0_19_def uniform_row_def certain_rows_def row_def list_eval)

text \<open>
  Claim C10 fails on the code, by the same rounding of \<open>b\<close>. On the support of 8 atoms
  from 0 to 19, \<open>delta_z\<close> is the double nearest to \<open>19 / 7\<close>; a \<open>Tz\<close> clamped to
  \<open>V_max = 19\<close> gives \<open>b = 14680065 / 2097152 = 7 + 2^-21\<close>, so \<open>up\<close> is 8 in every cell
  of the first row and the flattened index \<open>up + 0 * 8\<close> is 8, outside the row's segment
  \<open>[0, 7]\<close>. With a second row in the batch the call returns, and the mass \<open>2^-21\<close> of
  the first row is added to cell 8, the first cell of the second row; without one, cell 8
  is outside the accumulator and \<open>index_add_\<close> raises.
\<close>

theorem scatter_index_leaves_row:
  "forward_delta_z atoms_0_19 = Inr (3056014032858551 / 1125899906842624) \<and>
   forward_clamped_Tz 2 atoms_0_19 [Fin 19, Fin 0] [True, True] (Scalar (99 / 100)) =
     Inr [replicate 8 (Fin 19), replicate 8 (Fin 0)] \<and>
   forward_b (tensor_min atoms_0_19) (3056014032858551 / 1125899906842624)
     [replicate 8 (Fin 19), replicate 8 (Fin 0)] =
     [replicate 8 (14680065 / 2097152), replicate 8 0] \<and>
   real (length atoms_0_19) - 1 < 14680065 / 2097152 \<and>
   forward_low [replicate 8 (14680065 / 2097152), replicate 8 0] =
     [replicate 8 7, replicate 8 0] \<and>
   forward_up (length atoms_0_19) [replicate 8 (14680065 / 2097152), replicate 8 0] =
     [replicate 8 8, replicate 8 1] \<and>
   flat_index [replicate 8 8, replicate 8 1] (forward_offset 2 (length atoms_0_19)) =
     replicate 8 8 @ replicate 8 9 \<and>
   int ((0 + 1) * length atoms_0_19) - 1 < (replicate 8 8 @ replicate 8 9) ! 0 \<and>
   forward_m 2 atoms_0_19 [Fin 19, Fin 0] [True, True] (Scalar (99 / 100)) certain_rows =
     Inr [0, 0, 0, 0, 0, 0, 0, 2097151 / 2097152, 2097153 / 2097152, 0, 0, 0, 0, 0, 0, 0] \<and>
   forward_m 1 atoms_0_19 [Fin 19] [True] (Scalar (99 / 100)) [[1, 0, 0, 0, 0, 0, 0, 0]] =
     Inl IndexError"
  by (simp add: forward_m_eval atoms_0_19_def certain_rows_def list_eval)



section \<open>Properties of the double-estimator selection\<close>

lemma collect_Inr:
  "collect xs = Inr ys \<Longrightarrow> length ys = length xs \<and> (\<forall>k<length xs. xs ! k = Inr (ys ! k))"
proof (induction xs arbitrary: ys)
  case Nil
  then show ?case by simp
next
  case (Cons x xs)
  from Cons.prems obtain v vs where x: "x = Inr v" and vs: "collect xs = Inr vs"
    and ys: "ys = v # vs"
    by (auto split: sum.splits)
  from Cons.IH [OF vs] have "length vs = length xs" "\<forall>k<length xs. xs ! k = Inr (vs ! k)"
    by simp_all
  then show ?case unfolding ys x by (auto simp: nth_Cons split: nat.splits)
qed

lemma argmax_from_first_max:
  assumes "bi < length pre" "pre ! bi = best" "\<forall>j<length pre. pre ! j \<le> best"
    "\<forall>j<bi. pre ! j < best"
  shows "argmax_from best bi (length pre) ys < length (pre @ ys) \<and>
         (\<forall>j<length (pre @ ys). (pre @ ys) ! j \<le> (pre @ ys) ! argmax_from best bi (length pre) ys) \<and>
         (\<forall>j<argmax_from best bi (length pre) ys.
             (pre @ ys) ! j < (pre @ ys) ! argmax_from best bi (length pre) ys)"
  using assms
proof (induction ys arbitrary: pre best bi)
  case Nil
  then show ?case by simp
next
  case (Cons y ys)
  let ?pre = "pre @ [y]"
  have app: "?pre @ ys = pre @ y # ys" by simp
  have len: "length ?pre = Suc (length pre)" by simp
  show ?case
  proof (cases "best < y")
    case True
    have a: "length pre < length ?pre" by simp
    have b: "?pre ! length pre = y" by simp
    have c: "\<forall>j<length ?pre. ?pre ! j \<le> y"
      using Cons.prems(3) True by (auto simp: nth_append less_Suc_eq)
    have d: "\<forall>j<length pre. ?pre ! j < y"
      using Cons.prems(3) True by (auto simp: nth_append)
    from Cons.IH [OF a b c d] show ?thesis
      using True unfolding len app by simp
  next
    case False
    have a: "bi < length ?pre" using Cons.prems(1) by simp
    have b: "?pre ! bi = best" using Cons.prems(1,2) by (simp add: nth_append)
    have c: "\<forall>j<length ?pre. ?pre ! j \<le> best"
      using Cons.prems(3) False by (auto simp: nth_append less_Suc_eq)
    have d: "\<forall>j<bi. ?pre ! j < best"
      using Cons.prems(1,4) by (auto simp: nth_append)
    from Cons.IH [OF a b c d] show ?thesis
      using False unfolding len app by simp
  qed
qed

lemma argmax_Inr:
  assumes "argmax xs = Inr i"
  shows "0 \<le> i \<and> nat i < length xs \<and> (\<forall>j<length xs. xs ! j \<le> xs ! nat i) \<and>
         (\<forall>j<nat i. xs ! j < xs ! nat i)"
proof -
  from assms obtain x ys where xs: "xs = x # ys" and i: "i = int (argmax_from x 0 1 ys)"
    unfolding argmax_def by (auto split: list.splits)
  have "argmax_from x 0 (length [x]) ys < length ([x] @ ys) \<and>
         (\<forall>j<length ([x] @ ys). ([x] @ ys) ! j \<le> ([x] @ ys) ! argmax_from x 0 (length [x]) ys) \<and>
         (\<forall>j<argmax_from x 0 (length [x]) ys.
             ([x] @ ys) ! j < ([x] @ ys) ! argmax_from x 0 (length [x]) ys)"
    by (rule argmax_from_first_max) simp_all
  then show ?thesis unfolding xs i by simp
qed

lemma py_index_Inr:
  "py_index zs a = Inr x \<Longrightarrow>
     (0 \<le> a \<and> a < int (length zs) \<and> x = zs ! nat a) \<or>
     (- int (length zs) \<le> a \<and> a < 0 \<and> x = zs ! nat (int (length zs) + a))"
  unfolding py_index_def by (auto split: if_splits)

lemma forward_index_pns_Inr:
  assumes "forward_index_pns pns N idx = Inr rows" "n < N"
  shows "length idx = N" and "length rows = N" and "n < length pns"
    and "length (rows ! n) = length (pns ! n)"
    and "\<forall>z<length (pns ! n). py_index (pns ! n ! z) (idx ! n) = Inr (rows ! n ! z)"
proof -
  let ?f = "\<lambda>(n, a). if n < length pns then collect (map (\<lambda>zs. py_index zs a) (pns ! n))
                      else Inl IndexError"
  from assms(1) have l: "length idx = N"
    and c: "collect (map ?f (zip [0..<N] idx)) = Inr rows"
    unfolding forward_index_pns_def by (auto split: if_splits)
  show "length idx = N" by (rule l)
  from collect_Inr [OF c] l have lr: "length rows = N"
    and k: "\<forall>k<N. map ?f (zip [0..<N] idx) ! k = Inr (rows ! k)"
    by simp_all
  show "length rows = N" by (rule lr)
  from k assms(2) l have r: "?f (n, idx ! n) = Inr (rows ! n)" by simp
  then show np: "n < length pns" by (auto split: if_splits)
  with r have cr: "collect (map (\<lambda>zs. py_index zs (idx ! n)) (pns ! n)) = Inr (rows ! n)" by simp
  from collect_Inr [OF cr] show "length (rows ! n) = length (pns ! n)"
    and "\<forall>z<length (pns ! n). py_index (pns ! n ! z) (idx ! n) = Inr (rows ! n ! z)"
    by simp_all
qed

lemma forward_argmax_indices_ns_length:
  "forward_argmax_indices_ns space action = Inr idx \<Longrightarrow> length idx = length action"
  using collect_Inr [of "map argmax action" idx]
  unfolding forward_argmax_indices_ns_def by (auto split: if_splits)

lemma forward_argmax_indices_ns_Inr:
  assumes "forward_argmax_indices_ns space action = Inr idx" "n < length action"
  shows "if space = Categorical then action ! n = [idx ! n]
         else 0 \<le> idx ! n \<and> nat (idx ! n) < length (action ! n) \<and>
              (\<forall>j<length (action ! n). action ! n ! j \<le> action ! n ! nat (idx ! n)) \<and>
              (\<forall>j<nat (idx ! n). action ! n ! j < action ! n ! nat (idx ! n))"
proof (cases "space = Categorical")
  case True
  with assms(1) have one: "list_all (\<lambda>r. length r = 1) action" and idx: "idx = map hd action"
    unfolding forward_argmax_indices_ns_def by (auto split: if_splits)
  from one assms(2) have "length (action ! n) = 1" unfolding list_all_iff by simp
  then obtain a where "action ! n = [a]" by (cases "action ! n") simp_all
  then show ?thesis using True idx assms(2) by simp
next
  case False
  with assms(1) have c: "collect (map argmax action) = Inr idx"
    unfolding forward_argmax_indices_ns_def by simp
  from collect_Inr [OF c] assms(2) have "argmax (action ! n) = Inr (idx ! n)" by simp
  from argmax_Inr [OF this] False show ?thesis by simp
qed

text \<open>
  Claim C4. Let \<open>forward\<close> return, and let the network, on the next observation, write the
  action \<open>a_online\<close> under the online snapshot and the log-probabilities \<open>v_target\<close>
  under the target snapshot. Then for every transition \<open>n\<close> there is the index \<open>i\<close> of an
  action with: for a categorical action space \<open>i\<close> is the stored index, \<open>a_online[n] =
  [i]\<close>; for one-hot actions \<open>i\<close> is the argmax of \<open>a_online[n]\<close>, the first position
  that holds its maximum; and row \<open>n\<close> of \<open>pns_a\<close> is the exponential of
  \<open>v_target[n, :, i]\<close> (a negative \<open>i\<close> counts from the end). The mass \<open>m\<close> that
  \<open>forward\<close> returns is the projection of this \<open>pns_a\<close>: no path goes around the
  selection.
\<close>

theorem double_estimator_selection:
  assumes run: "DistributionalDQNLoss_forward L td = Inr (pns_a, m)"
    and online: "loss_value_network L (value_network_params L) (td_next_observation td)
                   = (a_online, v_online)"
    and target: "loss_value_network L (target_value_network_params L) (td_next_observation td)
                   = (a_target, v_target)"
    and n: "n < hd (td_batch_size td)"
  shows "(\<exists>i. (if loss_action_space L = Categorical then a_online ! n = [i]
               else 0 \<le> i \<and> nat i < length (a_online ! n) \<and>
                    (\<forall>j<length (a_online ! n). a_online ! n ! j \<le> a_online ! n ! nat i) \<and>
                    (\<forall>j<nat i. a_online ! n ! j < a_online ! n ! nat i)) \<and>
              length (pns_a ! n) = length (v_target ! n) \<and>
              (\<forall>z<length (v_target ! n).
                  (0 \<le> i \<and> i < int (length (v_target ! n ! z)) \<and>
                   pns_a ! n ! z = f32 (exp (v_target ! n ! z ! nat i))) \<or>
                  (- int (length (v_target ! n ! z)) \<le> i \<and> i < 0 \<and>
                   pns_a ! n ! z =
                     f32 (exp (v_target ! n ! z ! nat (int (length (v_target ! n ! z)) + i)))))) \<and>
         length pns_a = hd (td_batch_size td) \<and>
         forward_m (hd (td_batch_size td)) (params_support (value_network_params L))
           (td_next_reward td) (td_next_done td)
           (forward_discount (loss_gamma L) (td_steps_to_next_obs td)) pns_a = Inr m"
proof -
  let ?N = "hd (td_batch_size td)"
  let ?pns = "map (map (map (\<lambda>x. f32 (exp x)))) v_target"
  from run have P: "forward_pns_a L ?N (dqn_step_mdp td) = Inr pns_a"
    and M: "forward_m ?N (params_support (value_network_params L))
           (td_next_reward td) (td_next_done td)
           (forward_discount (loss_gamma L) (td_steps_to_next_obs td)) pns_a = Inr m"
    unfolding DistributionalDQNLoss_forward_def
    by (auto simp: Let_def split: if_splits sum.splits)
  from P online target obtain idx
    where A: "forward_argmax_indices_ns (loss_action_space L) a_online = Inr idx"
      and I: "forward_index_pns ?pns ?N idx = Inr pns_a"
    unfolding forward_pns_a_def run_value_network_def dqn_step_mdp_def
    by (auto simp: Let_def split: sum.splits)
  note X = forward_index_pns_Inr [OF I n]
  have la: "n < length a_online"
    using forward_argmax_indices_ns_length [OF A] X(1) n by simp
  have sel: "if loss_action_space L = Categorical then a_online ! n = [idx ! n]
         else 0 \<le> idx ! n \<and> nat (idx ! n) < length (a_online ! n) \<and>
              (\<forall>j<length (a_online ! n). a_online ! n ! j \<le> a_online ! n ! nat (idx ! n)) \<and>
              (\<forall>j<nat (idx ! n). a_online ! n ! j < a_online ! n ! nat (idx ! n))"
    by (rule forward_argmax_indices_ns_Inr [OF A la])
  have nv: "n < length v_target" using X(3) by simp
  have len: "length (pns_a ! n) = length (v_target ! n)" using X(4) nv by simp
  have cells: "\<forall>z<length (v_target ! n).
                  (0 \<le> idx ! n \<and> idx ! n < int (length (v_target ! n ! z)) \<and>
                   pns_a ! n ! z = f32 (exp (v_target ! n ! z ! nat (idx ! n)))) \<or>
                  (- int (length (v_target ! n ! z)) \<le> idx ! n \<and> idx ! n < 0 \<and>
                   pns_a ! n ! z =
                     f32 (exp (v_target ! n ! z ! nat (int (length (v_target ! n ! z)) + idx ! n))))"
  proof (intro allI impI)
    fix z assume z: "z < length (v_target ! n)"
    then have "py_index (?pns ! n ! z) (idx ! n) = Inr (pns_a ! n ! z)" using X(5) nv by simp
    from py_index_Inr [OF this] z nv
    show "(0 \<le> idx ! n \<and> idx ! n < int (length (v_target ! n ! z)) \<and>
                   pns_a ! n ! z = f32 (exp (v_target ! n ! z ! nat (idx ! n)))) \<or>
                  (- int (length (v_target ! n ! z)) \<le> idx ! n \<and> idx ! n < 0 \<and>
                   pns_a ! n ! z =
                     f32 (exp (v_target ! n ! z ! nat (int (length (v_target ! n ! z)) + idx ! n))))"
      by auto
  qed
  from sel len cells X(2) M show ?thesis by blast
qed


lemma example_pns_a:
  "forward_pns_a example_loss 1 (dqn_step_mdp example_transitions) = Inr [[1 / 4, 3 / 4]]"
  by (simp add: example_loss_def example_transitions_def
        example_network_def forward_pns_a_def run_value_network_def dqn_step_mdp_def
        forward_argmax_indices_ns_def argmax_def forward_index_pns_def py_index_def Let_def)
     (simp_all add: float_eval)

lemma example_m:
  "forward_m 1 [0, 1] [Fin 0] [False] (Scalar 1) [[1 / 4, 3 / 4]] = Inr [1 / 4, 3 / 4]"
  by (simp add: forward_m_eval)

lemma example_forward:
  "DistributionalDQNLoss_forward example_loss example_transitions =
     Inr ([[1 / 4, 3 / 4]], [1 / 4, 3 / 4])"
proof -
  have "forward_delta_z [0, 1] = Inr 1" "forward_discount 1 None = Scalar 1"
    by (simp_all add: forward_delta_z_def forward_discount_def float_eval)
  then show ?thesis
    using example_pns_a example_m
    by (simp add: DistributionalDQNLoss_forward_def example_loss_def example_transitions_def)
qed

text \<open>
  The hypotheses of C4 hold for the example, whose snapshots disagree. The online action
  \<open>[0, 1, 0]\<close> selects the second action, and \<open>pns_a\<close> is the target distribution of
  that action, \<open>[1/4, 3/4]\<close>: not the distribution \<open>[1/8, 7/8]\<close> of the action that the
  target snapshot writes, not \<open>[1/2, 1/2]\<close> of the last action, and not the online
  distribution \<open>[3/8, 5/8]\<close>.
\<close>

theorem double_estimator_selection_witness:
  "DistributionalDQNLoss_forward example_loss example_transitions =
     Inr ([[1 / 4, 3 / 4]], [1 / 4, 3 / 4]) \<and>
   loss_value_network example_loss (value_network_params example_loss)
     (td_next_observation example_transitions) =
     ([[0, 1, 0]], [[[ln (1 / 2), ln (3 / 8), ln (1 / 8)], [ln (1 / 2), ln (5 / 8), ln (7 / 8)]]]) \<and>
   loss_value_network example_loss (target_value_network_params example_loss)
     (td_next_observation example_transitions) =
     ([[1, 0, 0]], [[[ln (1 / 8), ln (1 / 4), ln (1 / 2)], [ln (7 / 8), ln (3 / 4), ln (1 / 2)]]]) \<and>
   (0::nat) < hd (td_batch_size example_transitions) \<and>
   loss_action_space example_loss = OneHot \<and>
   (\<exists>i. i = 1 \<and> 0 \<le> i \<and> nat i < length [0, 1, 0 :: int] \<and>
         (\<forall>j<length [0, 1, 0 :: int]. [0, 1, 0 :: int] ! j \<le> [0, 1, 0] ! nat i) \<and>
         (\<forall>j<nat i. [0, 1, 0 :: int] ! j < [0, 1, 0] ! nat i) \<and>
         (\<forall>z<2. [1 / 4, 3 / 4] ! z =
                  f32 (exp ([[ln (1 / 8), ln (1 / 4), ln (1 / 2)],
                             [ln (7 / 8), ln (3 / 4), ln (1 / 2 :: real)]] ! z ! nat i))))"
proof -
  have h: "loss_value_network example_loss (value_network_params example_loss)
     (td_next_observation example_transitions) =
     ([[0, 1, 0]], [[[ln (1 / 2), ln (3 / 8), ln (1 / 8)], [ln (1 / 2), ln (5 / 8), ln (7 / 8)]]])"
    "loss_value_network example_loss (target_value_network_params example_loss)
     (td_next_observation example_transitions) =
     ([[1, 0, 0]], [[[ln (1 / 8), ln (1 / 4), ln (1 / 2)], [ln (7 / 8), ln (3 / 4), ln (1 / 2)]]])"
    "(0::nat) < hd (td_batch_size example_transitions)"
    by (simp_all add: example_loss_def example_network_def example_transitions_def)
  have s: "loss_action_space example_loss = OneHot" by (simp add: example_loss_def)
  from double_estimator_selection [OF example_forward h]
  obtain i where i: "0 \<le> i" "nat i < length [0, 1, 0 :: int]"
    "\<forall>j<length [0, 1, 0 :: int]. [0, 1, 0 :: int] ! j \<le> [0, 1, 0] ! nat i"
    "\<forall>j<nat i. [0, 1, 0 :: int] ! j < [0, 1, 0] ! nat i"
    and c: "\<forall>z<length ([[[ln (1 / 8), ln (1 / 4), ln (1 / 2)], [ln (7 / 8), ln (3 / 4), ln (1 / 2 :: real)]]] ! 0).
                  (0 \<le> i \<and> i < int (length ([[[ln (1 / 8), ln (1 / 4), ln (1 / 2)], [ln (7 / 8), ln (3 / 4), ln (1 / 2 :: real)]]] ! 0 ! z)) \<and>
                   [[1 / 4, 3 / 4]] ! 0 ! z = f32 (exp ([[[ln (1 / 8), ln (1 / 4), ln (1 / 2)], [ln (7 / 8), ln (3 / 4), ln (1 / 2 :: real)]]] ! 0 ! z ! nat i))) \<or>
                  (- int (length ([[[ln (1 / 8), ln (1 / 4), ln (1 / 2)], [ln (7 / 8), ln (3 / 4), ln (1 / 2 :: real)]]] ! 0 ! z)) \<le> i \<and> i < 0 \<and>
                   [[1 / 4, 3 / 4]] ! 0 ! z =
                     f32 (exp ([[[ln (1 / 8), ln (1 / 4), ln (1 / 2)], [ln (7 / 8), ln (3 / 4), ln (1 / 2 :: real)]]] ! 0 ! z ! nat (int (length ([[[ln (1 / 8), ln (1 / 4), ln (1 / 2)], [ln (7 / 8), ln (3 / 4), ln (1 / 2 :: real)]]] ! 0 ! z)) + i))))"
    unfolding s by auto
  have one: "i = 1"
  proof -
    have "(1::nat) < length [0, 1, 0 :: int]" by simp
    with i(3) have "[0, 1, 0 :: int] ! 1 \<le> [0, 1, 0] ! nat i" by blast
    then have "nat i \<noteq> 0" "nat i \<noteq> 2" by auto
    moreover have "nat i < 3" using i(2) by simp
    ultimately have "nat i = 1" by linarith
    with i(1) show ?thesis by linarith
  qed
  have "\<forall>z<2. [1 / 4, 3 / 4] ! z =
                  f32 (exp ([[ln (1 / 8), ln (1 / 4), ln (1 / 2)],
                             [ln (7 / 8), ln (3 / 4), ln (1 / 2 :: real)]] ! z ! nat i))"
    using c i(1) by auto
  with one i example_forward h s show ?thesis by blast
qed


section \<open>Properties of the value estimators\<close>

text \<open>The definitions that evaluate the estimators on the concrete inputs.\<close>

lemmas est_defs = TD0Estimator_forward_def TD1Estimator_forward_def TDLambdaEstimator_forward_def
  GAE_forward_def TD0Estimator_value_estimate_def TD1Estimator_value_estimate_def
  TDLambdaEstimator_value_estimate_def value_estimate_inputs_def call_value_network_def
  td_get_def td_set_def step_mdp_def estimator_gamma_def standardize_rewards_def
  standardize_gae_def tensor_mean_def tensor_std_def tensor_sub_def tensor_add_def shape_def
  spec_functional_def spec_td0_return_estimate_def spec_td1_return_estimate_def
  spec_td_lambda_return_estimate_def spec_generalized_advantage_estimate_def gamma_like_def
  example_value_network_def example_estimator_def example_params_def example_batch_def
  example_gae_batch_def zero_steps_batch_def no_dims_batch_def detach_def plain_estimator_def Let_def

lemma sum_list_shift:
  fixes xs :: "real list"
  shows "sum_list (map (\<lambda>x. x - c) xs) = sum_list xs - real (length xs) * c"
  by (induction xs) (simp_all add: algebra_simps)

lemma tensor_mean_shift:
  assumes "concat t \<noteq> []"
  shows "tensor_mean (map (map (\<lambda>x. x - c)) t) = tensor_mean t - c"
proof -
  have n: "real (length (concat t)) \<noteq> 0" using assms by simp
  have "concat (map (map (\<lambda>x. x - c)) t) = map (\<lambda>x. x - c) (concat t)"
    by (simp add: map_concat)
  then show ?thesis
    unfolding tensor_mean_def using n by (simp add: sum_list_shift diff_divide_distrib)
qed

lemma tensor_std_shift:
  assumes "concat t \<noteq> []"
  shows "tensor_std (map (map (\<lambda>x. x - c)) t) = tensor_std t"
proof -
  have c: "concat (map (map (\<lambda>x. x - c)) t) = map (\<lambda>x. x - c) (concat t)"
    by (simp add: map_concat)
  show ?thesis
    unfolding tensor_std_def tensor_mean_shift [OF assms] c
    by (simp add: o_def)
qed

lemma standardize_rewards_spec:
  assumes "standardize_rewards reward0 = Inr reward"
  shows "reward = spec_standardized reward0"
proof -
  from assms have n: "\<not> length (concat reward0) < 2"
    unfolding standardize_rewards_def by (auto split: if_splits)
  then have "length (concat reward0) \<noteq> 0" by linarith
  then have ne: "concat reward0 \<noteq> []" by (metis list.size(3))
  from assms n have "reward = map (map (\<lambda>x. x / max (tensor_std (map (map (\<lambda>x. x - tensor_mean reward0)) reward0)) (1 / 10000)))
      (map (map (\<lambda>x. x - tensor_mean reward0)) reward0)"
    unfolding standardize_rewards_def by (simp add: Let_def)
  then show ?thesis
    unfolding spec_standardized_def tensor_std_shift [OF ne] by (simp add: o_def)
qed

text \<open>
  Claim C5, as amended. The guard of the four \<open>forward\<close> methods tests the number of
  batch dimensions: a batch with none (\<open>batch_dims < 1\<close>, a \<open>batch_size\<close> of \<open>[]\<close>) raises
  a \<open>RuntimeError\<close> before anything else runs.
\<close>

theorem no_batch_dimension_raises:
  assumes "length (batch_size td) < 1"
  shows "TD0Estimator_forward F e td p tp = Inl (RuntimeError dims_message) \<and>
         TD1Estimator_forward F e td p tp = Inl (RuntimeError dims_message) \<and>
         TDLambdaEstimator_forward F e td p tp = Inl (RuntimeError dims_message) \<and>
         GAE_forward F e td p tp = Inl (RuntimeError dims_message)"
  using assms
  unfolding TD0Estimator_forward_def TD1Estimator_forward_def TDLambdaEstimator_forward_def
    GAE_forward_def
  by simp

text \<open>The batch with no batch dimension is rejected by all four estimators.\<close>

theorem no_batch_dimension_raises_witness:
  "length (batch_size no_dims_batch) < 1 \<and>
   TD0Estimator_forward spec_functional example_estimator no_dims_batch (Some example_params) None
     = Inl (RuntimeError dims_message) \<and>
   TD1Estimator_forward spec_functional example_estimator no_dims_batch (Some example_params) None
     = Inl (RuntimeError dims_message) \<and>
   TDLambdaEstimator_forward spec_functional example_estimator no_dims_batch
     (Some example_params) None = Inl (RuntimeError dims_message) \<and>
   GAE_forward spec_functional example_estimator no_dims_batch (Some example_params) None
     = Inl (RuntimeError dims_message)"
proof -
  have h: "length (batch_size no_dims_batch) < 1" by (simp add: no_dims_batch_def)
  from no_batch_dimension_raises [OF h] h show ?thesis by blast
qed

text \<open>
  Claim C5 as stated fails: a batch whose time dimension has length zero has one batch
  dimension, passes the guard, and \<open>forward\<close> of TD0Estimator returns (with the
  elementwise TD(0) of the spec).
\<close>

theorem zero_time_steps_counterexample:
  "batch_size zero_steps_batch = [0] \<and>
   \<not> isl (TD0Estimator_forward spec_functional plain_estimator zero_steps_batch
            (Some example_params) None)"
  by (simp add: est_defs)



lemma value_estimate_inputs_reward:
  assumes run: "value_estimate_inputs e td tp = Inr (td1, g, nv, reward, d)"
    and r0: "entries td [''next'', ''reward''] = Some reward0"
  shows "reward = (if average_rewards e then spec_standardized reward0 else reward0)"
    and "td1 = (if average_rewards e then td_set td [''next'', ''reward''] reward else td)"
proof -
  have get: "td_get td [''next'', ''reward''] = Inr reward0" using r0 by (simp add: td_get_def)
  show "reward = (if average_rewards e then spec_standardized reward0 else reward0)"
  proof (cases "average_rewards e")
    case True
    with run get obtain r where "standardize_rewards reward0 = Inr r" and "reward = r"
      unfolding value_estimate_inputs_def
      by (auto simp: Let_def split: sum.splits if_splits)
    then show ?thesis using True standardize_rewards_spec by simp
  next
    case False
    with run get show ?thesis
      unfolding value_estimate_inputs_def
      by (auto simp: Let_def split: sum.splits if_splits)
  qed
  show "td1 = (if average_rewards e then td_set td [''next'', ''reward''] reward else td)"
    using run get unfolding value_estimate_inputs_def
    by (auto simp: Let_def split: sum.splits if_splits)
qed

text \<open>
  Claim C7. For a batch that has a reward \<open>reward0\<close>: when \<open>value_estimate\<close> of
  TD0Estimator, TD1Estimator or TDLambdaEstimator returns, the batch it leaves is the input
  batch with \<open>("next", "reward")\<close> replaced by the standardized reward
  \<open>(reward0 - mean) / max(std, 1e-4)\<close> if \<open>average_rewards\<close> is set, and the input
  batch unchanged otherwise; and the returned estimate is the result of the functional on
  that same reward.
\<close>

theorem average_rewards_replaces_reward:
  assumes r0: "entries td [''next'', ''reward''] = Some reward0"
  shows "let R = (if average_rewards e then spec_standardized reward0 else reward0);
             td1 = (if average_rewards e then td_set td [''next'', ''reward''] R else td)
         in (TD0Estimator_value_estimate F e td tp = Inr (tda, vta) \<longrightarrow>
               tda = td1 \<and> (\<exists>g nv d. td0_return_estimate F g nv R d = Inr vta)) \<and>
            (TD1Estimator_value_estimate F e td tp = Inr (tdb, vtb) \<longrightarrow>
               tdb = td1 \<and> (\<exists>g nv d t. vec_td1_return_estimate F g nv R d t = Inr vtb)) \<and>
            (TDLambdaEstimator_value_estimate F e td tp = Inr (tdc, vtc) \<longrightarrow>
               tdc = td1 \<and>
               (\<exists>g nv d t. (if vectorized e then vec_td_lambda_return_estimate F
                              else td_lambda_return_estimate F) g (lmbda e) nv R d t = Inr vtc))"
proof -
  let ?R = "if average_rewards e then spec_standardized reward0 else reward0"
  let ?td1 = "if average_rewards e then td_set td [''next'', ''reward''] ?R else td"
  have a: "tda = ?td1 \<and> (\<exists>g nv d. td0_return_estimate F g nv ?R d = Inr vta)"
    if "TD0Estimator_value_estimate F e td tp = Inr (tda, vta)"
  proof -
    from that obtain g nv reward d
      where i: "value_estimate_inputs e td tp = Inr (tda, g, nv, reward, d)"
        and h: "td0_return_estimate F g nv reward d = Inr vta"
      unfolding TD0Estimator_value_estimate_def by (auto split: sum.splits)
    have "reward = ?R" "tda = ?td1"
      using value_estimate_inputs_reward [OF i r0] by simp_all
    with h show ?thesis by blast
  qed
  have b: "tdb = ?td1 \<and> (\<exists>g nv d t. vec_td1_return_estimate F g nv ?R d t = Inr vtb)"
    if "TD1Estimator_value_estimate F e td tp = Inr (tdb, vtb)"
  proof -
    from that obtain g nv reward d
      where i: "value_estimate_inputs e td tp = Inr (tdb, g, nv, reward, d)"
        and h: "vec_td1_return_estimate F g nv reward d (int (length (batch_size td)) - 1) = Inr vtb"
      unfolding TD1Estimator_value_estimate_def by (auto split: sum.splits)
    have "reward = ?R" "tdb = ?td1"
      using value_estimate_inputs_reward [OF i r0] by simp_all
    with h show ?thesis by blast
  qed
  have c: "tdc = ?td1 \<and>
           (\<exists>g nv d t. (if vectorized e then vec_td_lambda_return_estimate F
                          else td_lambda_return_estimate F) g (lmbda e) nv ?R d t = Inr vtc)"
    if "TDLambdaEstimator_value_estimate F e td tp = Inr (tdc, vtc)"
  proof -
    from that obtain g nv reward d
      where i: "value_estimate_inputs e td tp = Inr (tdc, g, nv, reward, d)"
        and h: "(if vectorized e then vec_td_lambda_return_estimate F
                 else td_lambda_return_estimate F) g (lmbda e) nv reward d
                  (int (length (batch_size td)) - 1) = Inr vtc"
      unfolding TDLambdaEstimator_value_estimate_def by (auto split: sum.splits if_splits)
    have "reward = ?R" "tdc = ?td1"
      using value_estimate_inputs_reward [OF i r0] by simp_all
    with h show ?thesis by blast
  qed
  show ?thesis unfolding Let_def using a b c by blast
qed

lemma example_standardized: "spec_standardized [[1, 3, 5]] = [[-1, 0, 1]]"
  by (simp add: spec_standardized_def tensor_mean_def tensor_std_def)

text \<open>
  The hypotheses of C7 hold for the example with \<open>average_rewards\<close> set: the rewards
  \<open>1, 3, 5\<close> become \<open>-1, 0, 1\<close> in the batch.
\<close>

theorem average_rewards_replaces_reward_witness:
  "entries example_batch [''next'', ''reward''] = Some [[1, 3, 5]] \<and>
   average_rewards example_estimator \<and>
   TD0Estimator_value_estimate spec_functional example_estimator example_batch
     (Some (detach example_params)) =
     Inr (td_set example_batch [''next'', ''reward''] [[-1, 0, 1]], [[0, 0, 1]]) \<and>
   TD1Estimator_value_estimate spec_functional example_estimator example_batch
     (Some (detach example_params)) =
     Inr (td_set example_batch [''next'', ''reward''] [[-1, 0, 1]], [[0, 1, 1]]) \<and>
   TDLambdaEstimator_value_estimate spec_functional example_estimator example_batch
     (Some (detach example_params)) =
     Inr (td_set example_batch [''next'', ''reward''] [[-1, 0, 1]], [[- 1 / 4, 1 / 2, 1]]) \<and>
   td_set example_batch [''next'', ''reward''] [[-1, 0, 1]] =
     td_set example_batch [''next'', ''reward''] (spec_standardized [[1, 3, 5]]) \<and>
   (\<exists>g nv d. td0_return_estimate spec_functional g nv (spec_standardized [[1, 3, 5]]) d
      = Inr [[0, 0, 1]])"
proof -
  have r0: "entries example_batch [''next'', ''reward''] = Some [[1, 3, 5]]"
    by (simp add: example_batch_def)
  have av: "average_rewards example_estimator" by (simp add: example_estimator_def)
  have a: "TD0Estimator_value_estimate spec_functional example_estimator example_batch
     (Some (detach example_params)) =
     Inr (td_set example_batch [''next'', ''reward''] [[-1, 0, 1]], [[0, 0, 1]])"
    by (simp add: est_defs)
  have b: "TD1Estimator_value_estimate spec_functional example_estimator example_batch
     (Some (detach example_params)) =
     Inr (td_set example_batch [''next'', ''reward''] [[-1, 0, 1]], [[0, 1, 1]])"
    by (simp add: est_defs)
  have c: "TDLambdaEstimator_value_estimate spec_functional example_estimator example_batch
     (Some (detach example_params)) =
     Inr (td_set example_batch [''next'', ''reward''] [[-1, 0, 1]], [[- 1 / 4, 1 / 2, 1]])"
    by (simp add: est_defs)
  have "td_set example_batch [''next'', ''reward''] [[-1, 0, 1]] =
          td_set example_batch [''next'', ''reward''] (spec_standardized [[1, 3, 5]]) \<and>
        (\<exists>g nv d. td0_return_estimate spec_functional g nv (spec_standardized [[1, 3, 5]]) d
           = Inr [[0, 0, 1]])"
    using average_rewards_replaces_reward [OF r0, of example_estimator spec_functional
      "Some (detach example_params)"
      "td_set example_batch [''next'', ''reward''] [[-1, 0, 1]]" "[[0, 0, 1]]"] a av
    unfolding Let_def by (simp only: if_True)
  with r0 av a b c show ?thesis by blast
qed












end
